theory Spec2Isabelle
  imports Complex_Main
begin

section \<open>Ledger data\<close>

text \<open>
  Addresses and signatures are JavaScript strings. Balances are lamport counts, modelled as
  unbounded integers; SOL amounts (a lamport count divided by \<open>LAMPORTS_PER_SOL\<close>) are
  JavaScript numbers, modelled as the reals they denote (next section).
\<close>

type_synonym address = string

text \<open>
  What a call can throw: the \<open>Error\<close> objects of the ledger client, with their message,
  and the TypeError of reading a property of \<open>null\<close>.
\<close>

datatype error = Error string | TypeError string

text \<open>
  A parsed transaction as \<open>getParsedTransaction\<close> returns it: the account keys of the
  message (already mapped to strings) and \<open>meta\<close>, which the RPC may leave \<open>null\<close>.
\<close>

record tx_meta =
  preBalances :: "int list"
  postBalances :: "int list"

record transaction =
  accountKeys :: "address list"
  meta :: "tx_meta option"

section \<open>JavaScript numbers\<close>

text \<open>
  A JavaScript number is an IEEE 754 double. The finite doubles are modelled as the reals
  they denote, and every arithmetic operation of the source whose exact result need not
  be a double is followed by \<open>toDouble\<close>, rounding to the nearest double, ties to the
  even significand. \<open>NaN\<close>, the infinities and the overflow of magnitudes from \<open>2^1024\<close>
  on are outside the model.
\<close>

text \<open>The nearest integer, ties to the even one.\<close>

definition roundHalfEven :: "real \<Rightarrow> int" where
  "roundHalfEven m =
     (let f = \<lfloor>m\<rfloor>; d = m - of_int f in
      if d < 1 / 2 then f
      else if 1 / 2 < d then f + 1
      else if even f then f else f + 1)"

text \<open>
  Scaling of a magnitude \<open>m * s\<close> by powers of two until \<open>m\<close> lies in the range
  \<open>2^52 \<le> m < 2^53\<close> of a 53-bit significand, or the unit \<open>s\<close> has reached \<open>2^-1074\<close>, the
  spacing of the subnormal doubles. The first argument bounds the number of steps.
\<close>

fun normalise :: "nat \<Rightarrow> real \<Rightarrow> real \<Rightarrow> real \<times> real" where
  "normalise 0 m s = (m, s)"
| "normalise (Suc k) m s =
     (if m < 2 ^ 52 \<and> 1 / 2 ^ 1074 < s then normalise k (2 * m) (s / 2)
      else if 2 ^ 53 \<le> m then normalise k (m / 2) (2 * s)
      else (m, s))"

definition toDouble :: "real \<Rightarrow> real" where
  "toDouble x =
     (if x = 0 then 0
      else (case normalise 2200 \<bar>x\<bar> 1 of
              (m, s) \<Rightarrow> sgn x * of_int (roundHalfEven m) * s))"

section \<open>TransactionAnalyzer: classification of one transaction\<close>

datatype tx_type = RECEIVE | WITHDRAW | UNKNOWN

text \<open>\<open>Array.prototype.indexOf\<close>: the first index holding the value, \<open>None\<close> for \<open>-1\<close>.\<close>

fun indexOf :: "'a list \<Rightarrow> 'a \<Rightarrow> nat option" where
  "indexOf [] a = None"
| "indexOf (x # xs) a = (if x = a then Some 0 else map_option Suc (indexOf xs a))"

text \<open>Reading a JavaScript array: \<open>None\<close> stands for \<open>undefined\<close> past the end.\<close>

definition at_index :: "'a list \<Rightarrow> nat \<Rightarrow> 'a option" where
  "at_index xs i = (if i < length xs then Some (xs ! i) else None)"

text \<open>
  \<open>postBalances[i] - preBalances[i]\<close>: \<open>None\<close> stands for \<open>NaN\<close>, the difference when
  one of the two reads is \<open>undefined\<close>.
\<close>

definition balanceGain :: "tx_meta \<Rightarrow> nat \<Rightarrow> int option" where
  "balanceGain m i =
     (case (at_index (postBalances m) i, at_index (preBalances m) i) of
        (Some post, Some pre) \<Rightarrow> Some (post - pre)
      | _ \<Rightarrow> None)"

text \<open>
  \<open>getTransactionType\<close>. Reading \<open>transaction.meta.preBalances\<close> with a \<open>null\<close> meta
  throws a TypeError inside the \<open>try\<close>; the \<open>catch\<close> returns \<open>'UNKNOWN'\<close>. Every
  comparison with \<open>NaN\<close> is false, so a missing balance falls through to \<open>'UNKNOWN'\<close>.
\<close>

definition getTransactionType :: "address \<Rightarrow> transaction \<Rightarrow> tx_type" where
  "getTransactionType walletAddress tx =
     (case indexOf (accountKeys tx) walletAddress of
        None \<Rightarrow> UNKNOWN
      | Some walletIndex \<Rightarrow>
          (case meta tx of
             None \<Rightarrow> UNKNOWN
           | Some m \<Rightarrow>
               (case balanceGain m walletIndex of
                  None \<Rightarrow> UNKNOWN
                | Some diff \<Rightarrow>
                    (let threshold = 1000 in
                     if diff > threshold then RECEIVE
                     else if diff < - threshold then WITHDRAW
                     else UNKNOWN))))"

section \<open>SolanaService: the ledger client\<close>

text \<open>
  One outgoing transfer as \<open>getOutgoingSOLTransactions\<close> builds it. \<open>timestamp\<close> is a
  \<open>Date\<close> (milliseconds) or \<open>null\<close>.
\<close>

record transfer =
  txSignature :: string
  txTimestamp :: "nat option"
  amountSOL :: real
  amountLamports :: int
  fromWallet :: address
  toWallet :: address
  slot :: nat

text \<open>
  The network side of \<open>SolanaService\<close>, as seen during one scan:
  \<^item> \<open>getSignaturesForAddress w\<close> is the outcome of the request
    \<open>connection.getSignaturesForAddress(publicKey, {limit: 100})\<close> made by
    \<open>getTotalTransactionCount\<close>: the length of the batch, or what the \<open>try\<close> block threw;
  \<^item> \<open>getFirstTransactions w limit\<close> is the outcome of the method of that name: the
    earliest transactions of the wallet, or the \<open>Error\<close> it throws when a request fails
    after its retries;
  \<^item> \<open>getOutgoingSOLTransactions w maxAgeHours\<close> is the outcome of the method of that
    name, called with limit 0.
\<close>

record ledger =
  getSignaturesForAddress :: "address \<Rightarrow> error + nat"
  getFirstTransactions :: "address \<Rightarrow> nat \<Rightarrow> error + transaction list"
  getOutgoingSOLTransactions :: "address \<Rightarrow> nat \<Rightarrow> error + transfer list"

text \<open>
  \<open>getTotalTransactionCount\<close>: the exact count below 100, 100 otherwise; the \<open>catch\<close>
  logs the error and returns 0.
\<close>

definition getTotalTransactionCount :: "ledger \<Rightarrow> address \<Rightarrow> nat" where
  "getTotalTransactionCount svc walletAddress =
     (case getSignaturesForAddress svc walletAddress of
        Inl e \<Rightarrow> 0
      | Inr batchLength \<Rightarrow> (if batchLength < 100 then batchLength else 100))"

definition isSystemProgram :: "address \<Rightarrow> bool" where
  "isSystemProgram a \<longleftrightarrow> a \<in> set
     [''11111111111111111111111111111111'',
      ''TokenkegQfeZyiNwAJbNbGKPFXCWuBvf9Ss623VQ5DA'',
      ''ATokenGPvbdGVxr1b2hvZbsiqW5xWH25efTNsLJA8knL'',
      ''ComputeBudget111111111111111111111111111111'',
      ''SysvarRent111111111111111111111111111111111'',
      ''SysvarC1ock11111111111111111111111111111111'']"

section \<open>TransactionAnalyzer: destinations, amounts, verification\<close>

text \<open>
  The loop of \<open>getWithdrawDestination\<close> over the account keys from index \<open>i\<close> on: skip the
  source index and the system programs, return the first address that gained more than
  1000 lamports.
\<close>

fun firstRecipient :: "tx_meta \<Rightarrow> nat \<Rightarrow> address list \<Rightarrow> nat \<Rightarrow> address option" where
  "firstRecipient m sourceIndex [] i = None"
| "firstRecipient m sourceIndex (a # rest) i =
     (if i = sourceIndex then firstRecipient m sourceIndex rest (Suc i)
      else if isSystemProgram a then firstRecipient m sourceIndex rest (Suc i)
      else (case balanceGain m i of
              Some gain \<Rightarrow>
                (if gain > 1000 then Some a else firstRecipient m sourceIndex rest (Suc i))
            | None \<Rightarrow> firstRecipient m sourceIndex rest (Suc i)))"

text \<open>\<open>getWithdrawDestination\<close>; a \<open>null\<close> meta throws inside the \<open>try\<close> and gives \<open>null\<close>.\<close>

definition getWithdrawDestination :: "address \<Rightarrow> transaction \<Rightarrow> address option" where
  "getWithdrawDestination sourceWallet tx =
     (case indexOf (accountKeys tx) sourceWallet of
        None \<Rightarrow> None
      | Some sourceIndex \<Rightarrow>
          (case meta tx of
             None \<Rightarrow> None
           | Some m \<Rightarrow> firstRecipient m sourceIndex (accountKeys tx) 0))"

text \<open>
  A running total \<open>acc\<close> of \<open>getTransactionAmounts\<close>: \<open>None\<close> is \<open>NaN\<close>, which every later
  addition keeps. \<open>sign\<close> is 1 for the received total (\<open>post - pre\<close>) and -1 for the
  withdrawn total (\<open>pre - post\<close>). The method has no \<open>try\<close>: a \<open>null\<close> meta throws.
\<close>

fun sumBalanceChanges ::
  "int \<Rightarrow> address \<Rightarrow> transaction list \<Rightarrow> int option \<Rightarrow> error + int option" where
  "sumBalanceChanges sign walletAddress [] acc = Inr acc"
| "sumBalanceChanges sign walletAddress (tx # txs) acc =
     (case indexOf (accountKeys tx) walletAddress of
        None \<Rightarrow> sumBalanceChanges sign walletAddress txs acc
      | Some walletIndex \<Rightarrow>
          (case meta tx of
             None \<Rightarrow> Inl (TypeError ''meta is null'')
           | Some m \<Rightarrow>
               sumBalanceChanges sign walletAddress txs
                 (case (acc, balanceGain m walletIndex) of
                    (Some t, Some diff) \<Rightarrow> Some (t + sign * diff)
                  | _ \<Rightarrow> None)))"

definition getTransactionAmounts ::
  "address \<Rightarrow> transaction list \<Rightarrow> transaction list \<Rightarrow> error + (int option \<times> int option)" where
  "getTransactionAmounts walletAddress receiveTxs withdrawTxs =
     (case sumBalanceChanges 1 walletAddress receiveTxs (Some 0) of
        Inl e \<Rightarrow> Inl e
      | Inr totalReceived \<Rightarrow>
          (case sumBalanceChanges (- 1) walletAddress withdrawTxs (Some 0) of
             Inl e \<Rightarrow> Inl e
           | Inr totalWithdrawn \<Rightarrow> Inr (totalReceived, totalWithdrawn)))"

text \<open>The reason strings of \<open>verifyFinalWallet\<close>, one constructor per template.\<close>

datatype verify_reason =
  VirginWallet
| TooManyTransactions nat
| CountSaysOneFetchReturnedZero
| ExactlyOneReceive
| FirstTxNotReceive tx_type

record verification =
  isFinal :: bool
  verifyReason :: verify_reason
  txCount :: nat
  verifiedReceives :: nat
  verifiedWithdraws :: "nat option"

definition verifyFinalWallet :: "ledger \<Rightarrow> address \<Rightarrow> error + verification" where
  "verifyFinalWallet svc walletAddress =
     (let totalTxCount = getTotalTransactionCount svc walletAddress in
      if totalTxCount = 0 then
        Inr \<lparr>isFinal = True, verifyReason = VirginWallet, txCount = 0,
             verifiedReceives = 0, verifiedWithdraws = None\<rparr>
      else if totalTxCount > 1 then
        Inr \<lparr>isFinal = False, verifyReason = TooManyTransactions totalTxCount,
             txCount = totalTxCount, verifiedReceives = 0, verifiedWithdraws = Some 0\<rparr>
      else
        (case getFirstTransactions svc walletAddress 1 of
           Inl e \<Rightarrow> Inl e
         | Inr [] \<Rightarrow>
             Inr \<lparr>isFinal = False, verifyReason = CountSaysOneFetchReturnedZero, txCount = 0,
                  verifiedReceives = 0, verifiedWithdraws = None\<rparr>
         | Inr (tx # rest) \<Rightarrow>
             (let type = getTransactionType walletAddress tx in
              if type = RECEIVE then
                Inr \<lparr>isFinal = True, verifyReason = ExactlyOneReceive, txCount = 1,
                     verifiedReceives = 1, verifiedWithdraws = None\<rparr>
              else
                Inr \<lparr>isFinal = False, verifyReason = FirstTxNotReceive type, txCount = 1,
                     verifiedReceives = 0,
                     verifiedWithdraws = Some (if type = WITHDRAW then 1 else 0)\<rparr>)))"

section \<open>TransactionAnalyzer: pattern analysis\<close>

datatype pattern = VIRGIN | ONLY_RECEIVING | HOP | OTHER

text \<open>The reason strings of \<open>analyzeFirstTransactions\<close> (the percentages are left out).\<close>

datatype analysis_reason =
  NoTransactionsFound
| OneReceiveNoWithdraws
| OnlyReceiving nat
| HopPattern nat
| PartialWithdraw
| MixedPattern nat nat

text \<open>\<open>nextWallet\<close> is \<open>None\<close> both when the key is absent and when it is \<open>null\<close>.\<close>

record analysis =
  pattern :: pattern
  receives :: nat
  withdraws :: nat
  nextWallet :: "address option"
  reason :: analysis_reason

text \<open>
  \<open>(withdrawnLamports / receivedLamports) * 100 >= 80\<close> on JavaScript numbers: the
  quotient and the product are each rounded to a double. The test is false on \<open>NaN\<close>; a
  division by zero gives \<open>Infinity\<close> for a positive numerator and \<open>NaN\<close> or \<open>-Infinity\<close>
  otherwise. (The lamport totals are integers, taken to be below \<open>2^53\<close>, where the
  additions that build them are exact.)
\<close>

definition withdrawnAtLeast80Percent :: "int option \<Rightarrow> int option \<Rightarrow> bool" where
  "withdrawnAtLeast80Percent withdrawnLamports receivedLamports =
     (case (withdrawnLamports, receivedLamports) of
        (Some w, Some r) \<Rightarrow>
          (if r = 0 then w > 0
           else toDouble (toDouble (real_of_int w / real_of_int r) * 100) \<ge> 80)
      | _ \<Rightarrow> False)"

definition analyzeFirstTransactions :: "ledger \<Rightarrow> address \<Rightarrow> nat \<Rightarrow> error + analysis" where
  "analyzeFirstTransactions svc walletAddress limit =
     (case getFirstTransactions svc walletAddress limit of
        Inl e \<Rightarrow> Inl e
      | Inr transactions \<Rightarrow>
          if length transactions = 0 then
            Inr \<lparr>pattern = VIRGIN, receives = 0, withdraws = 0, nextWallet = None,
                 reason = NoTransactionsFound\<rparr>
          else
            (let receiveTxs = filter (\<lambda>tx. getTransactionType walletAddress tx = RECEIVE) transactions;
                 withdrawTxs = filter (\<lambda>tx. getTransactionType walletAddress tx = WITHDRAW) transactions
             in
             if length receiveTxs = 1 \<and> length withdrawTxs = 0 then
               Inr \<lparr>pattern = ONLY_RECEIVING, receives = 1, withdraws = 0, nextWallet = None,
                    reason = OneReceiveNoWithdraws\<rparr>
             else if length receiveTxs > 1 \<and> length withdrawTxs = 0 then
               Inr \<lparr>pattern = ONLY_RECEIVING, receives = length receiveTxs, withdraws = 0,
                    nextWallet = None, reason = OnlyReceiving (length receiveTxs)\<rparr>
             else if length receiveTxs \<ge> 1 \<and> length withdrawTxs = 1 then
               (case getTransactionAmounts walletAddress receiveTxs withdrawTxs of
                  Inl e \<Rightarrow> Inl e
                | Inr (receivedLamports, withdrawnLamports) \<Rightarrow>
                    if withdrawnAtLeast80Percent withdrawnLamports receivedLamports then
                      Inr \<lparr>pattern = HOP, receives = length receiveTxs, withdraws = 1,
                           nextWallet = getWithdrawDestination walletAddress (hd withdrawTxs),
                           reason = HopPattern (length receiveTxs)\<rparr>
                    else
                      Inr \<lparr>pattern = OTHER, receives = length receiveTxs,
                           withdraws = length withdrawTxs, nextWallet = None,
                           reason = PartialWithdraw\<rparr>)
             else
               Inr \<lparr>pattern = OTHER, receives = length receiveTxs,
                    withdraws = length withdrawTxs, nextWallet = None,
                    reason = MixedPattern (length receiveTxs) (length withdrawTxs)\<rparr>))"

text \<open>\<open>const limitsToTry = [2, 3, 5, Math.min(10, maxTxToTry)]\<close>\<close>

definition limitsToTry :: "nat \<Rightarrow> nat list" where
  "limitsToTry maxTxToTry = [2, 3, 5, min 10 maxTxToTry]"

text \<open>
  The \<open>for\<close> loop of \<open>analyzeWithDynamicLimit\<close> over the limits still to try; \<open>Inr None\<close>
  is leaving the loop without a \<open>return\<close>. A pattern that matches none of the five tests
  reaches the end of the loop body, which is the next iteration.
\<close>

fun tryLimits :: "ledger \<Rightarrow> address \<Rightarrow> nat list \<Rightarrow> error + analysis option" where
  "tryLimits svc walletAddress [] = Inr None"
| "tryLimits svc walletAddress (limit # limits) =
     (case analyzeFirstTransactions svc walletAddress limit of
        Inl e \<Rightarrow> Inl e
      | Inr a \<Rightarrow>
          if pattern a = ONLY_RECEIVING \<and> receives a = 1 then Inr (Some a)
          else if pattern a = HOP then Inr (Some a)
          else if pattern a = ONLY_RECEIVING \<and> receives a > 1 then
            tryLimits svc walletAddress limits
          else if pattern a = VIRGIN then Inr (Some a)
          else if pattern a = OTHER then tryLimits svc walletAddress limits
          else tryLimits svc walletAddress limits)"

definition analyzeWithDynamicLimit :: "ledger \<Rightarrow> address \<Rightarrow> nat \<Rightarrow> error + analysis" where
  "analyzeWithDynamicLimit svc walletAddress maxTxToTry =
     (case tryLimits svc walletAddress (limitsToTry maxTxToTry) of
        Inl e \<Rightarrow> Inl e
      | Inr (Some a) \<Rightarrow> Inr a
      | Inr None \<Rightarrow> analyzeFirstTransactions svc walletAddress maxTxToTry)"

section \<open>FreshWalletDetector: the amount filter\<close>

text \<open>
  The filter object: \<open>{type: 'range', min, max}\<close>, \<open>{type: 'target', value, tolerance}\<close>,
  or an object with any other \<open>type\<close>.
\<close>

datatype scan_filter =
  RangeFilter real real
| TargetFilter real real
| OtherFilter string

text \<open>
  \<open>matchesFilter\<close>. The comparisons are exact; the product \<open>filter.value * filter.tolerance\<close>
  and the difference \<open>amount - filter.value\<close> are rounded to doubles; \<open>Math.abs\<close> is exact.
\<close>

fun matchesFilter :: "real \<Rightarrow> scan_filter \<Rightarrow> bool" where
  "matchesFilter amount (RangeFilter fmin fmax) = (amount \<ge> fmin \<and> amount \<le> fmax)"
| "matchesFilter amount (TargetFilter fvalue ftolerance) =
     (let tolerance = toDouble (fvalue * ftolerance) in
      \<bar>toDouble (amount - fvalue)\<bar> \<le> tolerance)"
| "matchesFilter amount (OtherFilter t) = False"

section \<open>FreshWalletResult\<close>

text \<open>The reason strings of \<open>detectFreshWallet\<close>, one constructor per template.\<close>

datatype walk_reason =
  FreshSimple verify_reason
| NotFreshSimple verify_reason
| FreshVirgin analysis_reason
| FreshAfterHops nat verify_reason
| NotFreshVerification verify_reason
| HopBackToExchange nat
| CircularHop address
| NotFreshPattern analysis_reason
| FreshAtMaxHops nat verify_reason
| MaxHopsReachedInvalid nat verify_reason

text \<open>The \<open>txInfo\<close> argument: \<open>{amount, signature, timestamp}\<close>.\<close>

record tx_info =
  infoAmount :: real
  infoSignature :: string
  infoTimestamp :: "nat option"

record FreshWalletResult =
  isFresh :: bool
  finalWallet :: "address option"
  path :: "address list"
  resultReason :: walk_reason
  exchange :: string
  hops :: nat
  amount :: real
  signature :: string
  timestamp :: "nat option"

text \<open>
  The constructor. It destructures its argument without a \<open>hops\<close> key, so the \<open>hops\<close> the
  callers pass is dropped and the field is \<open>path.length - 1\<close>.
\<close>

definition newFreshWalletResult ::
  "bool \<Rightarrow> address option \<Rightarrow> address list \<Rightarrow> walk_reason \<Rightarrow> string \<Rightarrow> tx_info
     \<Rightarrow> FreshWalletResult" where
  "newFreshWalletResult fresh final walletPath why exchangeName txInfo =
     \<lparr>isFresh = fresh, finalWallet = final, path = walletPath, resultReason = why,
      exchange = exchangeName, hops = length walletPath - 1, amount = infoAmount txInfo,
      signature = infoSignature txInfo, timestamp = infoTimestamp txInfo\<rparr>"

section \<open>FreshWalletDetector\<close>

text \<open>
  The detector object. \<open>exchangeWallets\<close> is a \<open>Set\<close>, kept here as the list of its
  elements in insertion order; \<open>processedWalletsCache\<close> is the \<open>Map\<close> from wallet to result.
  The hop budget is a count, as in the configuration file (\<open>"maxHops": 3\<close>).
\<close>

record detector =
  solanaService :: ledger
  exchangeWallets :: "address list"
  maxHops :: nat
  firstTxToAnalyze :: nat
  maxAgeHours :: nat
  processedWalletsCache :: "address \<rightharpoonup> FreshWalletResult"

record detection_config =
  configMaxHops :: "nat option"
  configFirstTransactionsToAnalyze :: "nat option"
  configMaxAgeHours :: "nat option"

text \<open>\<open>value || fallback\<close> on an optional number: \<open>undefined\<close> and 0 are falsy.\<close>

definition orDefault :: "nat option \<Rightarrow> nat \<Rightarrow> nat" where
  "orDefault v fallback = (case v of None \<Rightarrow> fallback | Some n \<Rightarrow> if n = 0 then fallback else n)"

text \<open>The elements of \<open>new Set(xs)\<close> in insertion order: the first occurrence of each.\<close>

fun insertionOrder :: "'a list \<Rightarrow> 'a list \<Rightarrow> 'a list" where
  "insertionOrder [] seen = seen"
| "insertionOrder (x # xs) seen =
     (if x \<in> set seen then insertionOrder xs seen else insertionOrder xs (seen @ [x]))"

definition newFreshWalletDetector ::
  "ledger \<Rightarrow> address list \<Rightarrow> detection_config \<Rightarrow> detector" where
  "newFreshWalletDetector svc wallets config =
     \<lparr>solanaService = svc,
      exchangeWallets = insertionOrder wallets [],
      maxHops = orDefault (configMaxHops config) 3,
      firstTxToAnalyze = orDefault (configFirstTransactionsToAnalyze config) 3,
      maxAgeHours = orDefault (configMaxAgeHours config) 96,
      processedWalletsCache = Map.empty\<rparr>"

text \<open>
  The calls \<open>detectFreshWallet\<close> makes on its analyzer, logged in order: the model returns
  this log beside the result.
\<close>

datatype analyzer_call = AnalyzeCall address | VerifyCall address

text \<open>A JavaScript string or \<open>null\<close> used as a condition: \<open>null\<close> and \<open>''\<close> are falsy.\<close>

definition truthy :: "string option \<Rightarrow> bool" where
  "truthy v = (case v of None \<Rightarrow> False | Some s \<Rightarrow> s \<noteq> [])"

text \<open>
  The \<open>while (hops < this.maxHops)\<close> loop of \<open>detectFreshWallet\<close> together with the code
  after it, from the loop state \<open>path\<close>, \<open>currentWallet\<close>, \<open>hops\<close>; \<open>calls\<close> is the log
  so far. A \<open>continue\<close> is the recursive call.
\<close>

function hopLoop ::
  "detector \<Rightarrow> string \<Rightarrow> tx_info \<Rightarrow> nat \<Rightarrow> address list \<Rightarrow> address \<Rightarrow> nat \<Rightarrow> analyzer_call list
     \<Rightarrow> analyzer_call list \<times> (error + FreshWalletResult)" where
  "hopLoop d exchangeName txInfo maxTxToTry walletPath currentWallet hopCount calls =
     (if hopCount < maxHops d then
        (case analyzeWithDynamicLimit (solanaService d) currentWallet maxTxToTry of
           Inl e \<Rightarrow> (calls @ [AnalyzeCall currentWallet], Inl e)
         | Inr a \<Rightarrow>
             if pattern a = VIRGIN then
               (calls @ [AnalyzeCall currentWallet],
                Inr (newFreshWalletResult True (Some currentWallet) walletPath
                       (FreshVirgin (reason a)) exchangeName txInfo))
             else if pattern a = ONLY_RECEIVING then
               (case verifyFinalWallet (solanaService d) currentWallet of
                  Inl e \<Rightarrow>
                    (calls @ [AnalyzeCall currentWallet, VerifyCall currentWallet], Inl e)
                | Inr v \<Rightarrow>
                    (calls @ [AnalyzeCall currentWallet, VerifyCall currentWallet],
                     if isFinal v then
                       Inr (newFreshWalletResult True (Some currentWallet) walletPath
                              (FreshAfterHops hopCount (verifyReason v)) exchangeName txInfo)
                     else
                       Inr (newFreshWalletResult False None walletPath
                              (NotFreshVerification (verifyReason v)) exchangeName txInfo)))
             else if pattern a = HOP \<and> truthy (nextWallet a) then
               (if the (nextWallet a) \<in> set (exchangeWallets d) then
                  (calls @ [AnalyzeCall currentWallet],
                   Inr (newFreshWalletResult False None walletPath
                          (HopBackToExchange hopCount) exchangeName txInfo))
                else if the (nextWallet a) \<in> set walletPath then
                  (calls @ [AnalyzeCall currentWallet],
                   Inr (newFreshWalletResult False None walletPath
                          (CircularHop (the (nextWallet a))) exchangeName txInfo))
                else
                  hopLoop d exchangeName txInfo maxTxToTry
                    (walletPath @ [the (nextWallet a)]) (the (nextWallet a)) (hopCount + 1)
                    (calls @ [AnalyzeCall currentWallet]))
             else
               (calls @ [AnalyzeCall currentWallet],
                Inr (newFreshWalletResult False None walletPath
                       (NotFreshPattern (reason a)) exchangeName txInfo)))
      else
        (case verifyFinalWallet (solanaService d) currentWallet of
           Inl e \<Rightarrow> (calls @ [VerifyCall currentWallet], Inl e)
         | Inr finalVerification \<Rightarrow>
             (calls @ [VerifyCall currentWallet],
              if isFinal finalVerification then
                Inr (newFreshWalletResult True (Some currentWallet) walletPath
                       (FreshAtMaxHops (maxHops d) (verifyReason finalVerification))
                       exchangeName txInfo)
              else
                Inr (newFreshWalletResult False None walletPath
                       (MaxHopsReachedInvalid (maxHops d) (verifyReason finalVerification))
                       exchangeName txInfo))))"
  by pat_completeness auto
termination
  by (relation "measure (\<lambda>(d, exchangeName, txInfo, maxTxToTry, walletPath, currentWallet,
        hopCount, calls). maxHops d - hopCount)") auto

declare hopLoop.simps [simp del]

text \<open>
  \<open>detectFreshWallet\<close>: the pair of the call log and of the result or the error thrown.
  Any \<open>mode\<close> other than \<open>'simple'\<close> runs the hop loop.
\<close>

definition detectFreshWallet ::
  "detector \<Rightarrow> address \<Rightarrow> string \<Rightarrow> tx_info \<Rightarrow> nat \<Rightarrow> string
     \<Rightarrow> analyzer_call list \<times> (error + FreshWalletResult)" where
  "detectFreshWallet d initialWallet exchangeName txInfo maxTxToTry mode =
     (let walletPath = [initialWallet]; currentWallet = initialWallet in
      if mode = ''simple'' then
        (case verifyFinalWallet (solanaService d) currentWallet of
           Inl e \<Rightarrow> ([VerifyCall currentWallet], Inl e)
         | Inr v \<Rightarrow>
             ([VerifyCall currentWallet],
              if isFinal v then
                Inr (newFreshWalletResult True (Some currentWallet) walletPath
                       (FreshSimple (verifyReason v)) exchangeName txInfo)
              else
                Inr (newFreshWalletResult False None walletPath
                       (NotFreshSimple (verifyReason v)) exchangeName txInfo)))
      else hopLoop d exchangeName txInfo maxTxToTry walletPath currentWallet 0 [])"

section \<open>FreshWalletDetector: the scan\<close>

text \<open>
  First pass of \<open>scanExchangeWallets\<close>: the outgoing transfers of every exchange wallet,
  filtered by amount and appended to \<open>allOutgoingTxs\<close>. A failing fetch throws out of the
  scan. (The \<open>exchange\<close> tag added to each transfer is not read again and is left out.)
\<close>

fun collectOutgoing ::
  "detector \<Rightarrow> scan_filter \<Rightarrow> address list \<Rightarrow> transfer list \<Rightarrow> error + transfer list" where
  "collectOutgoing d flt [] allOutgoingTxs = Inr allOutgoingTxs"
| "collectOutgoing d flt (exchangeWallet # rest) allOutgoingTxs =
     (case getOutgoingSOLTransactions (solanaService d) exchangeWallet (maxAgeHours d) of
        Inl e \<Rightarrow> Inl e
      | Inr outgoingTxs \<Rightarrow>
          collectOutgoing d flt rest
            (allOutgoingTxs @ filter (\<lambda>tx. matchesFilter (amountSOL tx) flt) outgoingTxs))"

text \<open>
  \<open>uniqueWallets\<close>: a \<open>Map\<close> keyed by destination that keeps the first transfer seen for
  each key; its values in insertion order.
\<close>

fun uniqueWallets :: "transfer list \<Rightarrow> transfer list \<Rightarrow> transfer list" where
  "uniqueWallets [] kept = kept"
| "uniqueWallets (tx # txs) kept =
     (if toWallet tx \<in> toWallet ` set kept then uniqueWallets txs kept
      else uniqueWallets txs (kept @ [tx]))"

text \<open>
  The state of the second pass: the cache of the detector, the \<open>results\<close> array, and
  \<open>walked\<close>, the destinations for which \<open>detectFreshWallet\<close> was called, in order (a log
  kept by the model only).
\<close>

record scan_state =
  cache :: "address \<rightharpoonup> FreshWalletResult"
  results :: "FreshWalletResult list"
  walked :: "address list"

text \<open>
  Second pass. The loop body has no \<open>try\<close>: an error of \<open>detectFreshWallet\<close> leaves the
  loop and the method (\<open>Some e\<close>), with the state as it was when the error was thrown.
\<close>

fun analyzeWallets ::
  "detector \<Rightarrow> string \<Rightarrow> string \<Rightarrow> transfer list \<Rightarrow> scan_state \<Rightarrow> scan_state \<times> error option" where
  "analyzeWallets d exchangeName mode [] st = (st, None)"
| "analyzeWallets d exchangeName mode (tx # txs) st =
     (case cache st (toWallet tx) of
        Some cachedResult \<Rightarrow>
          analyzeWallets d exchangeName mode txs
            (if isFresh cachedResult then st\<lparr>results := results st @ [cachedResult]\<rparr> else st)
      | None \<Rightarrow>
          (case snd (detectFreshWallet d (toWallet tx) exchangeName
                       \<lparr>infoAmount = amountSOL tx, infoSignature = txSignature tx,
                        infoTimestamp = txTimestamp tx\<rparr> 10 mode) of
             Inl e \<Rightarrow> (st\<lparr>walked := walked st @ [toWallet tx]\<rparr>, Some e)
           | Inr result \<Rightarrow>
               analyzeWallets d exchangeName mode txs
                 (st\<lparr>cache := (cache st)(toWallet tx \<mapsto> result),
                     results := (if isFresh result then results st @ [result] else results st),
                     walked := walked st @ [toWallet tx]\<rparr>)))"

text \<open>
  \<open>scanExchangeWallets\<close>: the detector after the call (its cache is mutated in place and
  is not cleared), the log of walked destinations, and the returned list or the error
  thrown. The progress tracker and the unused \<open>limit\<close> are left out.
\<close>

definition scanExchangeWallets ::
  "detector \<Rightarrow> string \<Rightarrow> scan_filter \<Rightarrow> string
     \<Rightarrow> detector \<times> address list \<times> (error + FreshWalletResult list)" where
  "scanExchangeWallets d exchangeName flt mode =
     (case collectOutgoing d flt (exchangeWallets d) [] of
        Inl e \<Rightarrow> (d, [], Inl e)
      | Inr allOutgoingTxs \<Rightarrow>
          (let walletsToAnalyze = uniqueWallets allOutgoingTxs [];
               (st, thrown) = analyzeWallets d exchangeName mode walletsToAnalyze
                  \<lparr>cache = processedWalletsCache d, results = [], walked = []\<rparr>
           in (d\<lparr>processedWalletsCache := cache st\<rparr>, walked st,
               (case thrown of None \<Rightarrow> Inr (results st) | Some e \<Rightarrow> Inl e))))"


section \<open>Notions used to state the properties\<close>

text \<open>The wallets verified by \<open>verifyFinalWallet\<close> in a call log, in order.\<close>

fun verifyCalls :: "analyzer_call list \<Rightarrow> address list" where
  "verifyCalls [] = []"
| "verifyCalls (VerifyCall w # cs) = w # verifyCalls cs"
| "verifyCalls (AnalyzeCall w # cs) = verifyCalls cs"

text \<open>Zero, or a magnitude in the range of the normal doubles.\<close>

definition normalOrZero :: "real \<Rightarrow> bool" where
  "normalOrZero x \<longleftrightarrow> x = 0 \<or> (1 / 2 ^ 1022 \<le> \<bar>x\<bar> \<and> \<bar>x\<bar> < 2 ^ 1024)"

text \<open>
  A definitive signal of the adaptive analysis, in the words of the specification: a HOP,
  a VIRGIN, or an ONLY_RECEIVING with exactly one receive.
\<close>

definition definitive :: "analysis \<Rightarrow> bool" where
  "definitive a \<longleftrightarrow>
     pattern a = HOP \<or> pattern a = VIRGIN \<or> (pattern a = ONLY_RECEIVING \<and> receives a = 1)"

section \<open>Example ledgers\<close>

text \<open>
  A transfer of \<open>lamports\<close> from \<open>sender\<close> (holding \<open>senderBalance\<close>) to \<open>recipient\<close>, with
  a fee of 5000 lamports and the system program among the account keys.
\<close>

definition transferTx :: "address \<Rightarrow> address \<Rightarrow> int \<Rightarrow> int \<Rightarrow> transaction" where
  "transferTx sender recipient senderBalance lamports =
     \<lparr>accountKeys = [sender, recipient, ''11111111111111111111111111111111''],
      meta = Some \<lparr>preBalances = [senderBalance, 0, 1],
                   postBalances = [senderBalance - lamports - 5000, lamports, 1]\<rparr>\<rparr>"

text \<open>A ledger client on which no request fails, over a fixed history per wallet.\<close>

definition snapshotLedger ::
  "(address \<Rightarrow> transaction list) \<Rightarrow> (address \<Rightarrow> transfer list) \<Rightarrow> ledger" where
  "snapshotLedger history outgoing =
     \<lparr>getSignaturesForAddress = (\<lambda>w. Inr (length (history w))),
      getFirstTransactions = (\<lambda>w limit. Inr (take limit (history w))),
      getOutgoingSOLTransactions = (\<lambda>w maxAge. Inr (outgoing w))\<rparr>"

text \<open>
  \<open>E\<close> is the exchange wallet. \<open>A\<close> forwards to \<open>B\<close> and \<open>B\<close> back to \<open>A\<close>; \<open>C\<close> sends back
  to the exchange; \<open>F\<close> has its one receive; \<open>G\<close> forwards a quarter of what it received;
  every other wallet, \<open>D\<close> among them, has no transaction.
\<close>

definition exampleHistory :: "address \<Rightarrow> transaction list" where
  "exampleHistory w =
     (if w = ''A'' then [transferTx ''E'' ''A'' 9000000000 2000000000,
                         transferTx ''A'' ''B'' 2000000000 1900000000]
      else if w = ''B'' then [transferTx ''A'' ''B'' 2000000000 1900000000,
                              transferTx ''B'' ''A'' 1900000000 1800000000]
      else if w = ''C'' then [transferTx ''E'' ''C'' 9000000000 2000000000,
                              transferTx ''C'' ''E'' 2000000000 1900000000]
      else if w = ''F'' then [transferTx ''E'' ''F'' 9000000000 2000000000]
      else if w = ''G'' then [transferTx ''E'' ''G'' 9000000000 2000000000,
                              transferTx ''G'' ''H'' 2000000000 500000000]
      else [])"

definition mkTransfer :: "string \<Rightarrow> address \<Rightarrow> address \<Rightarrow> int \<Rightarrow> transfer" where
  "mkTransfer sig sender recipient lamports =
    \<lparr>txSignature = sig, txTimestamp = None, amountSOL = real_of_int lamports / 1000000000,
     amountLamports = lamports, fromWallet = sender, toWallet = recipient, slot = 0\<rparr>"

definition exampleOutgoing :: "address \<Rightarrow> transfer list" where
  "exampleOutgoing w =
     (if w = ''E'' then [mkTransfer ''s1'' ''E'' ''F'' 2000000000,
                         mkTransfer ''s2'' ''E'' ''D'' 2000000000]
      else [])"

definition exampleLedger :: ledger where
  "exampleLedger = snapshotLedger exampleHistory exampleOutgoing"

text \<open>The same ledger when the history of \<open>F\<close> cannot be fetched.\<close>

definition historyFailsLedger :: ledger where
  "historyFailsLedger = exampleLedger
     \<lparr>getFirstTransactions := (\<lambda>w limit.
         if w = ''F'' then Inl (Error ''Error getting first transactions: 429'')
         else getFirstTransactions exampleLedger w limit)\<rparr>"

text \<open>The same ledger when the signature request of the transaction count fails.\<close>

definition countFailsLedger :: ledger where
  "countFailsLedger = exampleLedger
     \<lparr>getSignaturesForAddress := (\<lambda>w. Inl (Error ''429 Too Many Requests''))\<rparr>"

definition exampleConfig :: "nat \<Rightarrow> detection_config" where
  "exampleConfig budget = \<lparr>configMaxHops = Some budget,
      configFirstTransactionsToAnalyze = None, configMaxAgeHours = None\<rparr>"

definition exampleDetector :: "nat \<Rightarrow> detector" where
  "exampleDetector budget = newFreshWalletDetector exampleLedger [''E''] (exampleConfig budget)"

definition exampleInfo :: tx_info where
  "exampleInfo = \<lparr>infoAmount = 2, infoSignature = ''s1'', infoTimestamp = None\<rparr>"

definition exampleFilter :: scan_filter where
  "exampleFilter = RangeFilter 1 3"


text \<open>A detector on the ledger where the history of \<open>F\<close> cannot be fetched.\<close>

definition historyFailsDetector :: detector where
  "historyFailsDetector = newFreshWalletDetector historyFailsLedger [''E''] (exampleConfig 3)"

section \<open>Properties of the classifier\<close>

lemma indexOf_None: "indexOf xs a = None \<longleftrightarrow> a \<notin> set xs"
  by (induction xs) auto

lemma indexOf_Some:
  "indexOf xs a = Some i \<longleftrightarrow> i < length xs \<and> xs ! i = a \<and> a \<notin> set (take i xs)"
proof (induction xs arbitrary: i)
  case Nil
  then show ?case by simp
next
  case (Cons x xs)
  show ?case
  proof (cases "x = a")
    case True
    then show ?thesis by (cases i) auto
  next
    case False
    then show ?thesis using Cons.IH by (cases i) auto
  qed
qed

text \<open>
  C7. The classifier works on the balance delta at the first position of the account among
  the transaction's account keys. With \<open>i\<close> that position and both balances recorded there,
  the result is RECEIVE exactly when \<open>post - pre > 1000\<close>, WITHDRAW exactly when
  \<open>post - pre < -1000\<close>, and UNKNOWN exactly in between; an account that is not among the
  account keys is classified UNKNOWN.
\<close>

theorem getTransactionType_classifies:
  "(walletAddress \<notin> set (accountKeys tx) \<longrightarrow> getTransactionType walletAddress tx = UNKNOWN)
   \<and> (\<forall>i m. i < length (accountKeys tx) \<and> accountKeys tx ! i = walletAddress
         \<and> walletAddress \<notin> set (take i (accountKeys tx)) \<and> meta tx = Some m
         \<and> i < length (preBalances m) \<and> i < length (postBalances m) \<longrightarrow>
       (getTransactionType walletAddress tx = RECEIVE
          \<longleftrightarrow> postBalances m ! i - preBalances m ! i > 1000)
       \<and> (getTransactionType walletAddress tx = WITHDRAW
          \<longleftrightarrow> postBalances m ! i - preBalances m ! i < - 1000)
       \<and> (getTransactionType walletAddress tx = UNKNOWN
          \<longleftrightarrow> - 1000 \<le> postBalances m ! i - preBalances m ! i
              \<and> postBalances m ! i - preBalances m ! i \<le> 1000))"
proof (intro conjI allI impI)
  assume "walletAddress \<notin> set (accountKeys tx)"
  then have "indexOf (accountKeys tx) walletAddress = None"
    by (simp add: indexOf_None)
  then show "getTransactionType walletAddress tx = UNKNOWN"
    by (simp add: getTransactionType_def)
next
  fix i m
  assume h: "i < length (accountKeys tx) \<and> accountKeys tx ! i = walletAddress
         \<and> walletAddress \<notin> set (take i (accountKeys tx)) \<and> meta tx = Some m
         \<and> i < length (preBalances m) \<and> i < length (postBalances m)"
  then have idx: "indexOf (accountKeys tx) walletAddress = Some i"
    by (simp add: indexOf_Some)
  from h have gain: "balanceGain m i = Some (postBalances m ! i - preBalances m ! i)"
    by (simp add: balanceGain_def at_index_def)
  from h have m: "meta tx = Some m" by simp
  show "getTransactionType walletAddress tx = RECEIVE
          \<longleftrightarrow> postBalances m ! i - preBalances m ! i > 1000"
    by (simp add: getTransactionType_def idx m gain)
  show "getTransactionType walletAddress tx = WITHDRAW
          \<longleftrightarrow> postBalances m ! i - preBalances m ! i < - 1000"
    by (simp add: getTransactionType_def idx m gain)
  show "getTransactionType walletAddress tx = UNKNOWN
          \<longleftrightarrow> - 1000 \<le> postBalances m ! i - preBalances m ! i
              \<and> postBalances m ! i - preBalances m ! i \<le> 1000"
    by (auto simp add: getTransactionType_def idx m gain)
qed

theorem getTransactionType_classifies_witness:
  "''C'' \<notin> set (accountKeys \<lparr>accountKeys = [''A'', ''B''],
        meta = Some \<lparr>preBalances = [5000, 0], postBalances = [900, 4000]\<rparr>\<rparr>)
   \<and> getTransactionType ''C'' \<lparr>accountKeys = [''A'', ''B''],
        meta = Some \<lparr>preBalances = [5000, 0], postBalances = [900, 4000]\<rparr>\<rparr> = UNKNOWN
   \<and> getTransactionType ''B'' \<lparr>accountKeys = [''A'', ''B''],
        meta = Some \<lparr>preBalances = [5000, 0], postBalances = [900, 4000]\<rparr>\<rparr> = RECEIVE
   \<and> getTransactionType ''A'' \<lparr>accountKeys = [''A'', ''B''],
        meta = Some \<lparr>preBalances = [5000, 0], postBalances = [900, 4000]\<rparr>\<rparr> = WITHDRAW"
  using getTransactionType_classifies [of "''C''" "\<lparr>accountKeys = [''A'', ''B''],
        meta = Some \<lparr>preBalances = [5000, 0], postBalances = [900, 4000]\<rparr>\<rparr>"]
    getTransactionType_classifies [of "''B''" "\<lparr>accountKeys = [''A'', ''B''],
        meta = Some \<lparr>preBalances = [5000, 0], postBalances = [900, 4000]\<rparr>\<rparr>",
      THEN conjunct2, rule_format, of 1 "\<lparr>preBalances = [5000, 0], postBalances = [900, 4000]\<rparr>"]
    getTransactionType_classifies [of "''A''" "\<lparr>accountKeys = [''A'', ''B''],
        meta = Some \<lparr>preBalances = [5000, 0], postBalances = [900, 4000]\<rparr>\<rparr>",
      THEN conjunct2, rule_format, of 0 "\<lparr>preBalances = [5000, 0], postBalances = [900, 4000]\<rparr>"]
  by simp

section \<open>Evaluation on the example ledger\<close>

lemma normalise_numeral:
  "normalise (numeral k) m s =
     (if m < 2 ^ 52 \<and> 1 / 2 ^ 1074 < s then normalise (pred_numeral k) (2 * m) (s / 2)
      else if 2 ^ 53 \<le> m then normalise (pred_numeral k) (m / 2) (2 * s)
      else (m, s))"
  by (simp add: numeral_eq_Suc)

lemmas window_defs =
  analyzeFirstTransactions_def exampleLedger_def snapshotLedger_def exampleHistory_def
  transferTx_def getTransactionType_def balanceGain_def at_index_def getTransactionAmounts_def
  withdrawnAtLeast80Percent_def toDouble_def normalise_numeral roundHalfEven_def
  getWithdrawDestination_def isSystemProgram_def Let_def

lemma example_window_A:
  "analyzeFirstTransactions exampleLedger ''A'' 2 =
     Inr \<lparr>pattern = HOP, receives = 1, withdraws = 1, nextWallet = Some ''B'',
          reason = HopPattern 1\<rparr>"
  by (simp add: window_defs)

lemma example_window_B:
  "analyzeFirstTransactions exampleLedger ''B'' 2 =
     Inr \<lparr>pattern = HOP, receives = 1, withdraws = 1, nextWallet = Some ''A'',
          reason = HopPattern 1\<rparr>"
  by (simp add: window_defs)

lemma example_window_C:
  "analyzeFirstTransactions exampleLedger ''C'' 2 =
     Inr \<lparr>pattern = HOP, receives = 1, withdraws = 1, nextWallet = Some ''E'',
          reason = HopPattern 1\<rparr>"
  by (simp add: window_defs)

lemma example_window_G:
  "analyzeFirstTransactions exampleLedger ''G'' 2 =
     Inr \<lparr>pattern = OTHER, receives = 1, withdraws = 1, nextWallet = None,
          reason = PartialWithdraw\<rparr>"
  "analyzeFirstTransactions exampleLedger ''G'' 3 =
     Inr \<lparr>pattern = OTHER, receives = 1, withdraws = 1, nextWallet = None,
          reason = PartialWithdraw\<rparr>"
  "analyzeFirstTransactions exampleLedger ''G'' 5 =
     Inr \<lparr>pattern = OTHER, receives = 1, withdraws = 1, nextWallet = None,
          reason = PartialWithdraw\<rparr>"
  "analyzeFirstTransactions exampleLedger ''G'' 10 =
     Inr \<lparr>pattern = OTHER, receives = 1, withdraws = 1, nextWallet = None,
          reason = PartialWithdraw\<rparr>"
  "analyzeFirstTransactions exampleLedger ''G'' (Suc 0) =
     Inr \<lparr>pattern = ONLY_RECEIVING, receives = 1, withdraws = 0, nextWallet = None,
          reason = OneReceiveNoWithdraws\<rparr>"
  by (simp_all add: window_defs)

lemma example_analysis:
  "analyzeWithDynamicLimit exampleLedger ''A'' 10 =
     Inr \<lparr>pattern = HOP, receives = 1, withdraws = 1, nextWallet = Some ''B'',
          reason = HopPattern 1\<rparr>"
  "analyzeWithDynamicLimit exampleLedger ''B'' 10 =
     Inr \<lparr>pattern = HOP, receives = 1, withdraws = 1, nextWallet = Some ''A'',
          reason = HopPattern 1\<rparr>"
  "analyzeWithDynamicLimit exampleLedger ''C'' 10 =
     Inr \<lparr>pattern = HOP, receives = 1, withdraws = 1, nextWallet = Some ''E'',
          reason = HopPattern 1\<rparr>"
  by (simp_all add: analyzeWithDynamicLimit_def limitsToTry_def
      example_window_A example_window_B example_window_C)

lemma exampleDetector_fields:
  "solanaService (exampleDetector n) = exampleLedger"
  "exchangeWallets (exampleDetector n) = [''E'']"
  "maxHops (exampleDetector n) = (if n = 0 then 3 else n)"
  by (simp_all add: exampleDetector_def newFreshWalletDetector_def exampleConfig_def
      orDefault_def)

lemma example_verify_B:
  "verifyFinalWallet exampleLedger ''B'' =
     Inr \<lparr>isFinal = False, verifyReason = TooManyTransactions 2, txCount = 2,
          verifiedReceives = 0, verifiedWithdraws = Some 0\<rparr>"
  by code_simp

lemmas walk_defs =
  detectFreshWallet_def hopLoop.simps exampleDetector_fields example_analysis
  newFreshWalletResult_def exampleInfo_def truthy_def Let_def

lemma example_walk_A:
  "detectFreshWallet (exampleDetector 3) ''A'' ''Binance'' exampleInfo 10 ''hopping'' =
     ([AnalyzeCall ''A'', AnalyzeCall ''B''],
      Inr \<lparr>isFresh = False, finalWallet = None, path = [''A'', ''B''],
           resultReason = CircularHop ''A'', exchange = ''Binance'', hops = 1,
           amount = 2, signature = ''s1'', timestamp = None\<rparr>)"
  by (simp add: walk_defs)

lemma example_walk_A_budget_1:
  "detectFreshWallet (exampleDetector 1) ''A'' ''Binance'' exampleInfo 10 ''hopping'' =
     ([AnalyzeCall ''A'', VerifyCall ''B''],
      Inr \<lparr>isFresh = False, finalWallet = None, path = [''A'', ''B''],
           resultReason = MaxHopsReachedInvalid 1 (TooManyTransactions 2),
           exchange = ''Binance'', hops = 1, amount = 2, signature = ''s1'',
           timestamp = None\<rparr>)"
  by (simp add: walk_defs example_verify_B)

section \<open>Rounding to a double\<close>

lemma roundHalfEven_error: "\<bar>of_int (roundHalfEven m) - m\<bar> \<le> 1 / 2"
  unfolding roundHalfEven_def Let_def
  by (auto simp: abs_le_iff)

lemma normalise_product:
  "normalise k m s = (m', s') \<Longrightarrow> m' * s' = m * s"
  by (induction k arbitrary: m s) (auto split: if_splits)

lemma normalise_scale_pos:
  "normalise k m s = (m', s') \<Longrightarrow> 0 < s \<Longrightarrow> 0 < s'"
  by (induction k arbitrary: m s) (auto split: if_splits)

lemma subnormal_unit:
  fixes m s :: real
  assumes "0 < m" and "m < 2 ^ 52" and "1 / 2 ^ 1022 \<le> m * s"
  shows "1 / 2 ^ 1074 < s"
proof (rule ccontr)
  assume "\<not> 1 / 2 ^ 1074 < s"
  then have "s \<le> 1 / 2 ^ 1074" by simp
  with assms(1) have "m * s \<le> m * (1 / 2 ^ 1074)"
    by (intro mult_left_mono) simp_all
  also from assms(2) have "\<dots> < 2 ^ 52 * (1 / 2 ^ 1074)"
    by (intro mult_strict_right_mono) simp_all
  also have "\<dots> = (1 / 2 ^ 1022 :: real)"
  proof -
    have "(2::real) ^ 1074 = 2 ^ 52 * 2 ^ 1022"
      by (simp add: power_add [symmetric])
    then show ?thesis by simp
  qed
  finally show False using assms(3) by simp
qed

lemma normalise_reach:
  "2 ^ 52 \<le> m * 2 ^ k \<Longrightarrow> m < 2 ^ 53 * 2 ^ k \<Longrightarrow> 1 / 2 ^ 1022 \<le> m * s \<Longrightarrow>
   normalise k m s = (m', s') \<Longrightarrow> 2 ^ 52 \<le> m' \<and> m' < 2 ^ 53"
proof (induction k arbitrary: m s)
  case 0
  then show ?case by simp
next
  case (Suc k)
  have mpos: "0 < m"
  proof (rule ccontr)
    assume "\<not> 0 < m"
    then have "m * 2 ^ Suc k \<le> 0" by (simp add: mult_le_0_iff)
    with Suc.prems(1) show False by (smt (verit) zero_less_power)
  qed
  show ?case
  proof (cases "m < 2 ^ 52")
    case True
    from subnormal_unit[OF mpos True Suc.prems(3)] have unit: "1 / 2 ^ 1074 < s" .
    with True Suc.prems(4) have rec: "normalise k (2 * m) (s / 2) = (m', s')"
      by simp
    from Suc.prems(1) have a: "2 ^ 52 \<le> (2 * m) * 2 ^ k" by (simp add: mult.assoc mult.left_commute)
    from True have "2 * m < 2 ^ 53" by simp
    also have "(2::real) ^ 53 \<le> 2 ^ 53 * 2 ^ k" by simp
    finally have b: "2 * m < 2 ^ 53 * 2 ^ k" .
    from Suc.prems(3) have c: "1 / 2 ^ 1022 \<le> (2 * m) * (s / 2)" by simp
    from Suc.IH[OF a b c rec] show ?thesis .
  next
    case False
    show ?thesis
    proof (cases "2 ^ 53 \<le> m")
      case True
      with False Suc.prems(4) have rec: "normalise k (m / 2) (2 * s) = (m', s')"
        by simp
      from True have "(2::real) ^ 52 \<le> m / 2" by simp
      also from mpos have "m / 2 \<le> (m / 2) * 2 ^ k" by simp
      finally have a: "2 ^ 52 \<le> (m / 2) * 2 ^ k" .
      from Suc.prems(2) have b: "m / 2 < 2 ^ 53 * 2 ^ k" by simp
      from Suc.prems(3) have c: "1 / 2 ^ 1022 \<le> (m / 2) * (2 * s)" by simp
      from Suc.IH[OF a b c rec] show ?thesis .
    next
      case ge: False
      with False Suc.prems(4) show ?thesis by simp
    qed
  qed
qed

lemma toDouble_zero: "toDouble 0 = 0"
  by (simp add: toDouble_def)

lemma toDouble_error:
  assumes "1 / 2 ^ 1022 \<le> \<bar>x\<bar>" and "\<bar>x\<bar> < 2 ^ 1024"
  shows "\<bar>toDouble x - x\<bar> \<le> \<bar>x\<bar> / 2 ^ 53"
proof -
  from assms(1) have nz: "x \<noteq> 0" by auto
  obtain m s where n: "normalise 2200 \<bar>x\<bar> 1 = (m, s)"
    by (cases "normalise 2200 \<bar>x\<bar> 1") auto
  from normalise_product[OF n] have prod: "m * s = \<bar>x\<bar>" by simp
  from normalise_scale_pos[OF n] have spos: "0 < s" by simp
  have lo: "(2::real) ^ 52 \<le> \<bar>x\<bar> * 2 ^ 2200"
  proof -
    have "(2::real) ^ 52 \<le> 2 ^ 1178" by (intro power_increasing) simp_all
    also have "\<dots> = 1 / 2 ^ 1022 * 2 ^ 2200"
    proof -
      have "(2::real) ^ 2200 = 2 ^ 1178 * 2 ^ 1022" by (simp add: power_add [symmetric])
      then show ?thesis by simp
    qed
    also from assms(1) have "\<dots> \<le> \<bar>x\<bar> * 2 ^ 2200"
      by (intro mult_right_mono) simp_all
    finally show ?thesis .
  qed
  have hi: "\<bar>x\<bar> < 2 ^ 53 * 2 ^ 2200"
  proof -
    have "(2::real) ^ 1024 \<le> 2 ^ (53 + 2200)" by (intro power_increasing) simp_all
    with assms(2) show ?thesis by (simp add: power_add)
  qed
  from assms(1) have norm: "1 / 2 ^ 1022 \<le> \<bar>x\<bar> * 1" by simp
  from normalise_reach[OF lo hi norm n] have range: "2 ^ 52 \<le> m" "m < 2 ^ 53" by simp_all
  have td: "toDouble x = sgn x * of_int (roundHalfEven m) * s"
    using nz n by (simp add: toDouble_def)
  have x: "x = sgn x * (m * s)"
    using prod by (simp add: sgn_mult_abs)
  have "toDouble x - x = sgn x * ((of_int (roundHalfEven m) - m) * s)"
    by (subst x, subst td) (simp add: algebra_simps)
  then have "\<bar>toDouble x - x\<bar> = \<bar>of_int (roundHalfEven m) - m\<bar> * s"
    using nz spos by (simp add: abs_mult abs_sgn_eq)
  also have "\<dots> \<le> (1 / 2) * s"
    using roundHalfEven_error[of m] spos by (intro mult_right_mono) simp_all
  also have "\<dots> \<le> \<bar>x\<bar> / 2 ^ 53"
  proof -
    from range(1) spos have "2 ^ 52 * s \<le> m * s" by (intro mult_right_mono) simp_all
    with prod have "2 ^ 52 * s \<le> \<bar>x\<bar>" by simp
    then have "s \<le> \<bar>x\<bar> / 2 ^ 52" by (simp add: field_simps)
    then have "(1 / 2) * s \<le> (1 / 2) * (\<bar>x\<bar> / 2 ^ 52)" by simp
    also have "\<dots> = \<bar>x\<bar> / 2 ^ 53" by simp
    finally show ?thesis .
  qed
  finally show ?thesis .
qed

lemma toDouble_near:
  assumes "normalOrZero x"
  shows "\<bar>toDouble x - x\<bar> \<le> \<bar>x\<bar> / 2 ^ 53"
  using assms toDouble_error[of x] by (auto simp: normalOrZero_def toDouble_zero)

section \<open>The amount filter\<close>

text \<open>
  C8, as amended. A range filter matches exactly the amounts with \<open>min \<le> amount \<le> max\<close>.
  A target filter matches exactly when \<open>|toDouble (amount - value)| \<le>
  toDouble (value * tolerance)\<close>, the difference and the product each rounded to the
  nearest double. When the difference and the product are doubles themselves, this is the
  test \<open>|amount - value| \<le> value * tolerance\<close>. In general, with both zero or in the
  range of the normal doubles, the filter matches whenever
  \<open>|amount - value| * (1 + 2^-53) \<le> value * tolerance * (1 - 2^-53)\<close>, and only when
  \<open>|amount - value| * (1 - 2^-53) \<le> |value * tolerance| * (1 + 2^-53)\<close>.
\<close>

theorem matchesFilter_iff:
  "(matchesFilter a (RangeFilter fmin fmax) \<longleftrightarrow> fmin \<le> a \<and> a \<le> fmax)
   \<and> (matchesFilter a (TargetFilter v t) \<longleftrightarrow> \<bar>toDouble (a - v)\<bar> \<le> toDouble (v * t))
   \<and> (toDouble (a - v) = a - v \<and> toDouble (v * t) = v * t \<longrightarrow>
        (matchesFilter a (TargetFilter v t) \<longleftrightarrow> \<bar>a - v\<bar> \<le> v * t))
   \<and> (normalOrZero (a - v) \<and> normalOrZero (v * t) \<longrightarrow>
        (\<bar>a - v\<bar> * (1 + 1 / 2 ^ 53) \<le> v * t * (1 - 1 / 2 ^ 53) \<longrightarrow>
           matchesFilter a (TargetFilter v t))
        \<and> (matchesFilter a (TargetFilter v t) \<longrightarrow>
           \<bar>a - v\<bar> * (1 - 1 / 2 ^ 53) \<le> \<bar>v * t\<bar> * (1 + 1 / 2 ^ 53)))"
proof (intro conjI impI)
  show "matchesFilter a (RangeFilter fmin fmax) \<longleftrightarrow> fmin \<le> a \<and> a \<le> fmax"
    by simp
  show "matchesFilter a (TargetFilter v t) \<longleftrightarrow> \<bar>toDouble (a - v)\<bar> \<le> toDouble (v * t)"
    by simp
next
  assume "toDouble (a - v) = a - v \<and> toDouble (v * t) = v * t"
  then show "matchesFilter a (TargetFilter v t) \<longleftrightarrow> \<bar>a - v\<bar> \<le> v * t"
    by simp
next
  assume r: "normalOrZero (a - v) \<and> normalOrZero (v * t)"
    and h: "\<bar>a - v\<bar> * (1 + 1 / 2 ^ 53) \<le> v * t * (1 - 1 / 2 ^ 53)"
  from r toDouble_near[of "a - v"] have d: "\<bar>toDouble (a - v) - (a - v)\<bar> \<le> \<bar>a - v\<bar> / 2 ^ 53"
    by simp
  from r toDouble_near[of "v * t"] have p: "\<bar>toDouble (v * t) - v * t\<bar> \<le> \<bar>v * t\<bar> / 2 ^ 53"
    by simp
  have "0 \<le> \<bar>a - v\<bar> * (1 + 1 / 2 ^ 53)" by simp
  with h have "0 \<le> v * t * (1 - 1 / 2 ^ 53)" by linarith
  then have nonneg: "0 \<le> v * t"
    by (simp add: zero_le_mult_iff)
  from d have "\<bar>toDouble (a - v)\<bar> \<le> \<bar>a - v\<bar> + \<bar>a - v\<bar> / 2 ^ 53" by linarith
  also have "\<dots> = \<bar>a - v\<bar> * (1 + 1 / 2 ^ 53)" by (simp add: algebra_simps)
  also note h
  also have "v * t * (1 - 1 / 2 ^ 53) = v * t - \<bar>v * t\<bar> / 2 ^ 53"
    using nonneg by (simp add: algebra_simps)
  also from p have "\<dots> \<le> toDouble (v * t)" by linarith
  finally show "matchesFilter a (TargetFilter v t)" by simp
next
  assume r: "normalOrZero (a - v) \<and> normalOrZero (v * t)"
    and m: "matchesFilter a (TargetFilter v t)"
  from r toDouble_near[of "a - v"] have d: "\<bar>toDouble (a - v) - (a - v)\<bar> \<le> \<bar>a - v\<bar> / 2 ^ 53"
    by simp
  from r toDouble_near[of "v * t"] have p: "\<bar>toDouble (v * t) - v * t\<bar> \<le> \<bar>v * t\<bar> / 2 ^ 53"
    by simp
  have "\<bar>a - v\<bar> * (1 - 1 / 2 ^ 53) = \<bar>a - v\<bar> - \<bar>a - v\<bar> / 2 ^ 53" by (simp add: algebra_simps)
  also from d have "\<dots> \<le> \<bar>toDouble (a - v)\<bar>" by linarith
  also from m have "\<dots> \<le> toDouble (v * t)" by simp
  also from p have "\<dots> \<le> \<bar>v * t\<bar> + \<bar>v * t\<bar> / 2 ^ 53" by linarith
  also have "\<dots> = \<bar>v * t\<bar> * (1 + 1 / 2 ^ 53)" by (simp add: algebra_simps)
  finally show "\<bar>a - v\<bar> * (1 - 1 / 2 ^ 53) \<le> \<bar>v * t\<bar> * (1 + 1 / 2 ^ 53)" .
qed

lemmas double_defs = toDouble_def normalise_numeral roundHalfEven_def

theorem matchesFilter_iff_witness:
  "toDouble (7 / 2 - 3) = 7 / 2 - 3 \<and> toDouble (3 * (1 / 2)) = 3 * (1 / 2)
   \<and> \<bar>7 / 2 - 3 :: real\<bar> \<le> 3 * (1 / 2)
   \<and> normalOrZero (7 / 2 - 3) \<and> normalOrZero (3 * (1 / 2))
   \<and> \<bar>7 / 2 - 3 :: real\<bar> * (1 + 1 / 2 ^ 53) \<le> 3 * (1 / 2) * (1 - 1 / 2 ^ 53)
   \<and> matchesFilter (7 / 2) (TargetFilter 3 (1 / 2))
   \<and> \<bar>7 / 2 - 3 :: real\<bar> * (1 - 1 / 2 ^ 53) \<le> \<bar>3 * (1 / 2)\<bar> * (1 + 1 / 2 ^ 53)"
proof -
  have e1: "toDouble (7 / 2 - 3) = 7 / 2 - 3"
    by (simp add: double_defs)
  have e2: "toDouble (3 * (1 / 2)) = 3 * (1 / 2)"
    by (simp add: double_defs)
  have n1: "normalOrZero (7 / 2 - 3)"
    by (simp add: normalOrZero_def)
  have n2: "normalOrZero (3 * (1 / 2))"
    by (simp add: normalOrZero_def)
  have b: "\<bar>7 / 2 - 3 :: real\<bar> * (1 + 1 / 2 ^ 53) \<le> 3 * (1 / 2) * (1 - 1 / 2 ^ 53)"
    by simp
  have le: "\<bar>7 / 2 - 3 :: real\<bar> \<le> 3 * (1 / 2)"
    by simp
  note inst = matchesFilter_iff[of "7 / 2" 0 0 3 "1 / 2"]
  from inst e1 e2 le have m: "matchesFilter (7 / 2) (TargetFilter 3 (1 / 2))"
    by blast
  from inst n1 n2 m
  have u: "\<bar>7 / 2 - 3 :: real\<bar> * (1 - 1 / 2 ^ 53) \<le> \<bar>3 * (1 / 2)\<bar> * (1 + 1 / 2 ^ 53)"
    by blast
  from e1 e2 le n1 n2 b m u show ?thesis by blast
qed

text \<open>
  C8, as stated, fails at the boundary of a target filter: for the doubles written
  \<open>3.41\<close>, \<open>3.1\<close> and \<open>0.1\<close> in JavaScript, the filter matches, the rounded difference
  and the rounded product being the same double, while the exact difference of the
  doubles exceeds their exact product.
\<close>

theorem target_filter_rounding_counterexample:
  "matchesFilter (toDouble (341 / 100)) (TargetFilter (toDouble (31 / 10)) (toDouble (1 / 10)))
   \<and> \<not> \<bar>toDouble (341 / 100) - toDouble (31 / 10)\<bar> \<le> toDouble (31 / 10) * toDouble (1 / 10)"
proof -
  have a: "toDouble (341 / 100) = 959829670583337 / 281474976710656"
    by (simp add: double_defs)
  have v: "toDouble (31 / 10) = 6980579422424269 / 2251799813685248"
    by (simp add: double_defs)
  have t: "toDouble (1 / 10) = 3602879701896397 / 36028797018963968"
    by (simp add: double_defs)
  show ?thesis
    unfolding a v t by (simp add: double_defs)
qed

section \<open>The hop loop\<close>

lemma hopLoop_exhausted:
  "\<not> hopCount < maxHops d \<Longrightarrow>
   hopLoop d en ti mx p cur hopCount calls =
     (calls @ [VerifyCall cur],
      case verifyFinalWallet (solanaService d) cur of
        Inl e \<Rightarrow> Inl e
      | Inr v \<Rightarrow> Inr (newFreshWalletResult (isFinal v) (if isFinal v then Some cur else None) p
            (if isFinal v then FreshAtMaxHops (maxHops d) (verifyReason v)
             else MaxHopsReachedInvalid (maxHops d) (verifyReason v)) en ti))"
  by (subst hopLoop.simps) (simp split: sum.splits)

lemma hopLoop_advance:
  assumes "hopCount < maxHops d"
    and "analyzeWithDynamicLimit (solanaService d) cur mx = Inr a"
    and "pattern a = HOP" and "truthy (nextWallet a)"
    and "the (nextWallet a) \<notin> set (exchangeWallets d)" and "the (nextWallet a) \<notin> set p"
  shows "hopLoop d en ti mx p cur hopCount calls =
     hopLoop d en ti mx (p @ [the (nextWallet a)]) (the (nextWallet a)) (hopCount + 1)
       (calls @ [AnalyzeCall cur])"
  using assms by (subst hopLoop.simps) simp

lemma hopLoop_stop:
  assumes "hopCount < maxHops d"
    and "analyzeWithDynamicLimit (solanaService d) cur mx = Inr a"
    and "\<not> (pattern a = HOP \<and> truthy (nextWallet a)
           \<and> the (nextWallet a) \<notin> set (exchangeWallets d) \<and> the (nextWallet a) \<notin> set p)"
    and "hopLoop d en ti mx p cur hopCount calls = (calls', Inr r)"
  shows "path r = p \<and> hops r = length p - 1
     \<and> (\<exists>new. calls' = calls @ new \<and> length (verifyCalls new) \<le> 1)
     \<and> (pattern a = HOP \<longrightarrow> \<not> isFresh r \<and> finalWallet r = None
           \<and> calls' = calls @ [AnalyzeCall cur])"
  using assms
  by (subst (asm) hopLoop.simps)
     (auto simp: newFreshWalletResult_def split: sum.splits if_splits)

lemma hopLoop_error:
  assumes "hopCount < maxHops d"
    and "analyzeWithDynamicLimit (solanaService d) cur mx = Inl e"
  shows "hopLoop d en ti mx p cur hopCount calls = (calls @ [AnalyzeCall cur], Inl e)"
  using assms by (subst hopLoop.simps) simp

lemma hopLoop_stop_calls:
  assumes "hopCount < maxHops d"
    and "analyzeWithDynamicLimit (solanaService d) cur mx = Inr a"
    and "\<not> (pattern a = HOP \<and> truthy (nextWallet a)
           \<and> the (nextWallet a) \<notin> set (exchangeWallets d) \<and> the (nextWallet a) \<notin> set p)"
    and "hopLoop d en ti mx p cur hopCount calls = (calls', out)"
  shows "\<exists>new. calls' = calls @ new \<and> length (verifyCalls new) \<le> 1"
  using assms
  by (subst (asm) hopLoop.simps)
     (auto simp: newFreshWalletResult_def split: sum.splits if_splits)

lemma hopLoop_path:
  "hopLoop d en ti mx p cur hopCount calls = (calls', Inr r) \<Longrightarrow>
   \<exists>ext. path r = p @ ext \<and> distinct ext \<and> set ext \<inter> set p = {}
      \<and> set ext \<inter> set (exchangeWallets d) = {}
      \<and> hopCount + length ext \<le> max hopCount (maxHops d)
      \<and> hops r = length (path r) - 1"
proof (induction d en ti mx p cur hopCount calls rule: hopLoop.induct)
  case (1 d en ti mx p cur hopCount calls)
  show ?case
  proof (cases "hopCount < maxHops d")
    case False
    with "1.prems" show ?thesis
      by (auto simp: hopLoop_exhausted newFreshWalletResult_def split: sum.splits if_splits)
  next
    case True
    show ?thesis
    proof (cases "analyzeWithDynamicLimit (solanaService d) cur mx")
      case (Inl e)
      with True "1.prems" show ?thesis
        by (simp add: hopLoop_error)
    next
      case (Inr a)
      show ?thesis
      proof (cases "pattern a = HOP \<and> truthy (nextWallet a)
           \<and> the (nextWallet a) \<notin> set (exchangeWallets d) \<and> the (nextWallet a) \<notin> set p")
        case False
        from hopLoop_stop[OF True Inr False "1.prems"] show ?thesis
          by simp
      next
        case c: True
        let ?n = "the (nextWallet a)"
        from c have nv: "pattern a \<noteq> VIRGIN" "pattern a \<noteq> ONLY_RECEIVING" by auto
        from True Inr c "1.prems"
        have rec: "hopLoop d en ti mx (p @ [?n]) ?n (hopCount + 1) (calls @ [AnalyzeCall cur]) = (calls', Inr r)"
          by (simp add: hopLoop_advance)
        from "1.IH"[OF True Inr nv _ _ _ rec] c
        obtain ext where e: "path r = (p @ [?n]) @ ext" "distinct ext" "set ext \<inter> set (p @ [?n]) = {}"
          "set ext \<inter> set (exchangeWallets d) = {}"
          "hopCount + 1 + length ext \<le> max (hopCount + 1) (maxHops d)"
          "hops r = length (path r) - 1"
          by auto
        show ?thesis
          apply (rule exI[of _ "?n # ext"])
          using e c True by auto
      qed
    qed
  qed
qed

lemma hopLoop_calls:
  "length p = hopCount + 1 \<Longrightarrow> last p = cur \<Longrightarrow>
   hopLoop d en ti mx p cur hopCount calls = (calls', out) \<Longrightarrow>
   \<exists>new. calls' = calls @ new \<and> length (verifyCalls new) \<le> 1
      \<and> (\<forall>r. out = Inr r \<and> maxHops d \<le> length (path r) - 1 \<longrightarrow> verifyCalls new = [last (path r)])"
proof (induction d en ti mx p cur hopCount calls rule: hopLoop.induct)
  case (1 d en ti mx p cur hopCount calls)
  show ?case
  proof (cases "hopCount < maxHops d")
    case False
    with "1.prems" show ?thesis
      by (auto simp: hopLoop_exhausted newFreshWalletResult_def split: sum.splits if_splits)
  next
    case True
    show ?thesis
    proof (cases "analyzeWithDynamicLimit (solanaService d) cur mx")
      case (Inl e)
      with True "1.prems" show ?thesis
        by (auto simp add: hopLoop_error)
    next
      case (Inr a)
      show ?thesis
      proof (cases "pattern a = HOP \<and> truthy (nextWallet a)
           \<and> the (nextWallet a) \<notin> set (exchangeWallets d) \<and> the (nextWallet a) \<notin> set p")
        case False
        from hopLoop_stop_calls[OF True Inr False "1.prems"(3)]
        obtain new where n: "calls' = calls @ new" "length (verifyCalls new) \<le> 1" by auto
        have "\<forall>r. out = Inr r \<longrightarrow> \<not> maxHops d \<le> length (path r) - 1"
        proof (intro allI impI)
          fix r assume "out = Inr r"
          with hopLoop_stop[OF True Inr False] "1.prems"(3) have "path r = p" by simp
          with "1.prems"(1) True show "\<not> maxHops d \<le> length (path r) - 1" by simp
        qed
        with n show ?thesis by auto
      next
        case c: True
        let ?n = "the (nextWallet a)"
        from c have nv: "pattern a \<noteq> VIRGIN" "pattern a \<noteq> ONLY_RECEIVING" by auto
        from True Inr c "1.prems"
        have rec: "hopLoop d en ti mx (p @ [?n]) ?n (hopCount + 1) (calls @ [AnalyzeCall cur]) = (calls', out)"
          by (simp add: hopLoop_advance)
        have l: "length (p @ [?n]) = hopCount + 1 + 1" "last (p @ [?n]) = ?n"
          using "1.prems"(1) by simp_all
        from "1.IH"[OF True Inr nv _ _ _ l rec] c
        obtain new where e: "calls' = (calls @ [AnalyzeCall cur]) @ new" "length (verifyCalls new) \<le> 1"
          "\<forall>r. out = Inr r \<and> maxHops d \<le> length (path r) - 1 \<longrightarrow> verifyCalls new = [last (path r)]"
          by auto
        show ?thesis
          apply (rule exI[of _ "AnalyzeCall cur # new"])
          using e by auto
      qed
    qed
  qed
qed

section \<open>The chain walk\<close>

lemma hopLoop_hop_stops:
  assumes "hopCount < maxHops d"
    and "analyzeWithDynamicLimit (solanaService d) cur mx = Inr a"
    and "pattern a = HOP" and "nextWallet a = Some n"
    and "n \<in> set (exchangeWallets d) \<or> n \<in> set p"
  shows "\<exists>r. hopLoop d en ti mx p cur hopCount calls = (calls @ [AnalyzeCall cur], Inr r)
      \<and> \<not> isFresh r \<and> finalWallet r = None \<and> path r = p \<and> hops r = length p - 1"
  using assms by (subst hopLoop.simps) (auto simp: newFreshWalletResult_def)

lemma detectFreshWallet_path:
  assumes "detectFreshWallet d w en ti mx mode = (calls, Inr r)"
  shows "\<exists>ext. path r = w # ext \<and> distinct ext \<and> w \<notin> set ext
      \<and> set ext \<inter> set (exchangeWallets d) = {} \<and> length ext \<le> maxHops d
      \<and> hops r = length ext"
proof (cases "mode = ''simple''")
  case True
  with assms show ?thesis
    by (auto simp: detectFreshWallet_def Let_def newFreshWalletResult_def split: sum.splits if_splits)
next
  case False
  with assms have "hopLoop d en ti mx [w] w 0 [] = (calls, Inr r)"
    by (simp add: detectFreshWallet_def Let_def)
  from hopLoop_path[OF this] show ?thesis by auto
qed

text \<open>
  C4. No address appears twice in the path of a result of \<open>detectFreshWallet\<close>; and at any
  state of the hop loop, a HOP whose next wallet is already in the path ends the walk with
  a result that is not fresh and whose path is the current path, nothing appended.
\<close>

theorem detectFreshWallet_no_cycle:
  "(\<forall>calls r. detectFreshWallet d w en ti mx mode = (calls, Inr r) \<longrightarrow> distinct (path r))
   \<and> (\<forall>a n. hopCount < maxHops d
          \<and> analyzeWithDynamicLimit (solanaService d) cur mx = Inr a
          \<and> pattern a = HOP \<and> nextWallet a = Some n \<and> n \<in> set p \<longrightarrow>
        (\<exists>r. hopLoop d en ti mx p cur hopCount cs = (cs @ [AnalyzeCall cur], Inr r)
            \<and> \<not> isFresh r \<and> path r = p))"
proof (intro conjI allI impI)
  fix calls r
  assume "detectFreshWallet d w en ti mx mode = (calls, Inr r)"
  from detectFreshWallet_path[OF this] show "distinct (path r)" by auto
next
  fix a n
  assume h: "hopCount < maxHops d
          \<and> analyzeWithDynamicLimit (solanaService d) cur mx = Inr a
          \<and> pattern a = HOP \<and> nextWallet a = Some n \<and> n \<in> set p"
  then have "\<exists>r. hopLoop d en ti mx p cur hopCount cs = (cs @ [AnalyzeCall cur], Inr r)
      \<and> \<not> isFresh r \<and> finalWallet r = None \<and> path r = p \<and> hops r = length p - 1"
    by (intro hopLoop_hop_stops[where a = a and n = n]) simp_all
  then show "\<exists>r. hopLoop d en ti mx p cur hopCount cs = (cs @ [AnalyzeCall cur], Inr r)
            \<and> \<not> isFresh r \<and> path r = p"
    by blast
qed

theorem detectFreshWallet_no_cycle_witness:
  "detectFreshWallet (exampleDetector 3) ''A'' ''Binance'' exampleInfo 10 ''hopping'' =
     ([AnalyzeCall ''A'', AnalyzeCall ''B''],
      Inr \<lparr>isFresh = False, finalWallet = None, path = [''A'', ''B''],
           resultReason = CircularHop ''A'', exchange = ''Binance'', hops = 1,
           amount = 2, signature = ''s1'', timestamp = None\<rparr>)
   \<and> distinct [''A'', ''B'']
   \<and> 1 < maxHops (exampleDetector 3)
   \<and> analyzeWithDynamicLimit (solanaService (exampleDetector 3)) ''B'' 10 =
       Inr \<lparr>pattern = HOP, receives = 1, withdraws = 1, nextWallet = Some ''A'',
            reason = HopPattern 1\<rparr>
   \<and> ''A'' \<in> set [''A'', ''B'']
   \<and> (\<exists>r. hopLoop (exampleDetector 3) ''Binance'' exampleInfo 10 [''A'', ''B''] ''B'' 1
             [AnalyzeCall ''A''] = ([AnalyzeCall ''A'', AnalyzeCall ''B''], Inr r)
          \<and> \<not> isFresh r \<and> path r = [''A'', ''B''])"
proof -
  have walk: "detectFreshWallet (exampleDetector 3) ''A'' ''Binance'' exampleInfo 10 ''hopping'' =
     ([AnalyzeCall ''A'', AnalyzeCall ''B''],
      Inr \<lparr>isFresh = False, finalWallet = None, path = [''A'', ''B''],
           resultReason = CircularHop ''A'', exchange = ''Binance'', hops = 1,
           amount = 2, signature = ''s1'', timestamp = None\<rparr>)"
    by (rule example_walk_A)
  have budget: "1 < maxHops (exampleDetector 3)"
    by (simp add: exampleDetector_fields)
  have hop: "analyzeWithDynamicLimit (solanaService (exampleDetector 3)) ''B'' 10 =
       Inr \<lparr>pattern = HOP, receives = 1, withdraws = 1, nextWallet = Some ''A'',
            reason = HopPattern 1\<rparr>"
    by (simp add: exampleDetector_fields example_analysis)
  note inst = detectFreshWallet_no_cycle[of "exampleDetector 3" "''A''" "''Binance''" exampleInfo 10
      "''hopping''" 1 "''B''" "[''A'', ''B'']" "[AnalyzeCall ''A'']"]
  from inst walk have d: "distinct [''A'', ''B'']"
    by (metis FreshWalletResult.select_convs(3))
  from inst budget hop
  have stop: "\<exists>r. hopLoop (exampleDetector 3) ''Binance'' exampleInfo 10 [''A'', ''B''] ''B'' 1
             [AnalyzeCall ''A''] = ([AnalyzeCall ''A''] @ [AnalyzeCall ''B''], Inr r)
          \<and> \<not> isFresh r \<and> path r = [''A'', ''B'']"
    by simp
  from walk d budget hop stop show ?thesis by simp
qed

text \<open>
  C6. At any state of the hop loop inside the budget, whatever budget remains, a HOP whose
  next wallet is one of the exchange wallets ends the walk with a result that is not fresh
  and whose path is the current path, nothing appended; and in the path of any result of
  \<open>detectFreshWallet\<close>, no address after the starting one is an exchange wallet.
\<close>

theorem hop_back_to_exchange_stops:
  "(\<forall>a n. hopCount < maxHops d
          \<and> analyzeWithDynamicLimit (solanaService d) cur mx = Inr a
          \<and> pattern a = HOP \<and> nextWallet a = Some n \<and> n \<in> set (exchangeWallets d) \<longrightarrow>
        (\<exists>r. hopLoop d en ti mx p cur hopCount cs = (cs @ [AnalyzeCall cur], Inr r)
            \<and> \<not> isFresh r \<and> finalWallet r = None \<and> path r = p))
   \<and> (\<forall>calls r. detectFreshWallet d w en ti mx mode = (calls, Inr r) \<longrightarrow>
         set (tl (path r)) \<inter> set (exchangeWallets d) = {})"
proof (intro conjI allI impI)
  fix a n
  assume h: "hopCount < maxHops d
          \<and> analyzeWithDynamicLimit (solanaService d) cur mx = Inr a
          \<and> pattern a = HOP \<and> nextWallet a = Some n \<and> n \<in> set (exchangeWallets d)"
  then have "\<exists>r. hopLoop d en ti mx p cur hopCount cs = (cs @ [AnalyzeCall cur], Inr r)
      \<and> \<not> isFresh r \<and> finalWallet r = None \<and> path r = p \<and> hops r = length p - 1"
    by (intro hopLoop_hop_stops[where a = a and n = n]) simp_all
  then show "\<exists>r. hopLoop d en ti mx p cur hopCount cs = (cs @ [AnalyzeCall cur], Inr r)
            \<and> \<not> isFresh r \<and> finalWallet r = None \<and> path r = p"
    by blast
next
  fix calls r
  assume "detectFreshWallet d w en ti mx mode = (calls, Inr r)"
  from detectFreshWallet_path[OF this]
  show "set (tl (path r)) \<inter> set (exchangeWallets d) = {}" by auto
qed

theorem hop_back_to_exchange_stops_witness:
  "0 < maxHops (exampleDetector 3)
   \<and> analyzeWithDynamicLimit (solanaService (exampleDetector 3)) ''C'' 10 =
       Inr \<lparr>pattern = HOP, receives = 1, withdraws = 1, nextWallet = Some ''E'',
            reason = HopPattern 1\<rparr>
   \<and> ''E'' \<in> set (exchangeWallets (exampleDetector 3))
   \<and> (\<exists>r. hopLoop (exampleDetector 3) ''Binance'' exampleInfo 10 [''C''] ''C'' 0 [] =
             ([AnalyzeCall ''C''], Inr r)
          \<and> \<not> isFresh r \<and> finalWallet r = None \<and> path r = [''C''])
   \<and> detectFreshWallet (exampleDetector 3) ''A'' ''Binance'' exampleInfo 10 ''hopping'' =
     ([AnalyzeCall ''A'', AnalyzeCall ''B''],
      Inr \<lparr>isFresh = False, finalWallet = None, path = [''A'', ''B''],
           resultReason = CircularHop ''A'', exchange = ''Binance'', hops = 1,
           amount = 2, signature = ''s1'', timestamp = None\<rparr>)
   \<and> set (tl [''A'', ''B'']) \<inter> set (exchangeWallets (exampleDetector 3)) = {}"
proof -
  have budget: "0 < maxHops (exampleDetector 3)"
    by (simp add: exampleDetector_fields)
  have hop: "analyzeWithDynamicLimit (solanaService (exampleDetector 3)) ''C'' 10 =
       Inr \<lparr>pattern = HOP, receives = 1, withdraws = 1, nextWallet = Some ''E'',
            reason = HopPattern 1\<rparr>"
    by (simp add: exampleDetector_fields example_analysis)
  have ex: "''E'' \<in> set (exchangeWallets (exampleDetector 3))"
    by (simp add: exampleDetector_fields)
  have walk: "detectFreshWallet (exampleDetector 3) ''A'' ''Binance'' exampleInfo 10 ''hopping'' =
     ([AnalyzeCall ''A'', AnalyzeCall ''B''],
      Inr \<lparr>isFresh = False, finalWallet = None, path = [''A'', ''B''],
           resultReason = CircularHop ''A'', exchange = ''Binance'', hops = 1,
           amount = 2, signature = ''s1'', timestamp = None\<rparr>)"
    by (rule example_walk_A)
  note inst = hop_back_to_exchange_stops[of 0 "exampleDetector 3" "''C''" 10 "''Binance''"
      exampleInfo "[''C'']" "[]" "''A''" "''hopping''"]
  from inst budget hop ex
  have stop: "\<exists>r. hopLoop (exampleDetector 3) ''Binance'' exampleInfo 10 [''C''] ''C'' 0 [] =
             ([] @ [AnalyzeCall ''C''], Inr r)
          \<and> \<not> isFresh r \<and> finalWallet r = None \<and> path r = [''C'']"
    by simp
  from inst walk
  have clean: "set (tl [''A'', ''B'']) \<inter> set (exchangeWallets (exampleDetector 3)) = {}"
    by (metis FreshWalletResult.select_convs(3))
  from budget hop ex stop walk clean show ?thesis by simp
qed

text \<open>
  C5. In a walk of \<open>detectFreshWallet\<close> in a mode other than \<open>'simple'\<close>, at most one
  verification is made; a result has \<open>hops \<le> maxHops\<close>, a path of at most \<open>maxHops + 1\<close>
  addresses and \<open>hops = length path - 1\<close>; and a result with \<open>hops = maxHops\<close> comes with
  exactly one verification, of the last wallet of the path. When the loop is entered with
  the budget used up, the one call made is the verification of the current wallet, and
  the walk ends on its outcome: fresh when it says final, not fresh when it does not, the
  error when it throws; the path is the current path.
\<close>

theorem hop_budget:
  "(\<forall>calls out. mode \<noteq> ''simple'' \<and> detectFreshWallet d w en ti mx mode = (calls, out) \<longrightarrow>
      length (verifyCalls calls) \<le> 1
      \<and> (\<forall>r. out = Inr r \<longrightarrow>
            hops r \<le> maxHops d \<and> length (path r) \<le> maxHops d + 1
            \<and> hops r = length (path r) - 1
            \<and> (hops r = maxHops d \<longrightarrow> verifyCalls calls = [last (path r)])))
   \<and> (\<not> hopCount < maxHops d \<longrightarrow>
        (\<exists>out. hopLoop d en ti mx p cur hopCount cs = (cs @ [VerifyCall cur], out)
           \<and> (\<forall>e. verifyFinalWallet (solanaService d) cur = Inl e \<longrightarrow> out = Inl e)
           \<and> (\<forall>v. verifyFinalWallet (solanaService d) cur = Inr v \<longrightarrow>
                 (\<exists>r. out = Inr r \<and> isFresh r = isFinal v \<and> path r = p))))"
proof (rule conjI)
  show "\<forall>calls out. mode \<noteq> ''simple'' \<and> detectFreshWallet d w en ti mx mode = (calls, out) \<longrightarrow>
      length (verifyCalls calls) \<le> 1
      \<and> (\<forall>r. out = Inr r \<longrightarrow>
            hops r \<le> maxHops d \<and> length (path r) \<le> maxHops d + 1
            \<and> hops r = length (path r) - 1
            \<and> (hops r = maxHops d \<longrightarrow> verifyCalls calls = [last (path r)]))"
  proof (intro allI impI)
    fix calls out
    assume h: "mode \<noteq> ''simple'' \<and> detectFreshWallet d w en ti mx mode = (calls, out)"
    then have loop: "hopLoop d en ti mx [w] w 0 [] = (calls, out)"
      by (auto simp add: detectFreshWallet_def Let_def)
    from hopLoop_calls[OF _ _ loop]
    have c: "length (verifyCalls calls) \<le> 1"
      "\<forall>r. out = Inr r \<and> maxHops d \<le> length (path r) - 1 \<longrightarrow> verifyCalls calls = [last (path r)]"
      by auto
    have "hops r \<le> maxHops d \<and> length (path r) \<le> maxHops d + 1
            \<and> hops r = length (path r) - 1
            \<and> (hops r = maxHops d \<longrightarrow> verifyCalls calls = [last (path r)])"
      if o: "out = Inr r" for r
    proof -
      from o h have "detectFreshWallet d w en ti mx mode = (calls, Inr r)" by simp
      from detectFreshWallet_path[OF this]
      obtain ext where e: "path r = w # ext" "length ext \<le> maxHops d" "hops r = length ext"
        by auto
      from e c(2) o show ?thesis by auto
    qed
    with c(1) show "length (verifyCalls calls) \<le> 1
      \<and> (\<forall>r. out = Inr r \<longrightarrow>
            hops r \<le> maxHops d \<and> length (path r) \<le> maxHops d + 1
            \<and> hops r = length (path r) - 1
            \<and> (hops r = maxHops d \<longrightarrow> verifyCalls calls = [last (path r)]))"
      by blast
  qed
next
  show "\<not> hopCount < maxHops d \<longrightarrow>
        (\<exists>out. hopLoop d en ti mx p cur hopCount cs = (cs @ [VerifyCall cur], out)
           \<and> (\<forall>e. verifyFinalWallet (solanaService d) cur = Inl e \<longrightarrow> out = Inl e)
           \<and> (\<forall>v. verifyFinalWallet (solanaService d) cur = Inr v \<longrightarrow>
                 (\<exists>r. out = Inr r \<and> isFresh r = isFinal v \<and> path r = p)))"
  proof (rule impI)
    assume "\<not> hopCount < maxHops d"
    from hopLoop_exhausted[OF this, of en ti mx p cur cs]
    show "\<exists>out. hopLoop d en ti mx p cur hopCount cs = (cs @ [VerifyCall cur], out)
           \<and> (\<forall>e. verifyFinalWallet (solanaService d) cur = Inl e \<longrightarrow> out = Inl e)
           \<and> (\<forall>v. verifyFinalWallet (solanaService d) cur = Inr v \<longrightarrow>
                 (\<exists>r. out = Inr r \<and> isFresh r = isFinal v \<and> path r = p))"
      by (auto simp: newFreshWalletResult_def)
  qed
qed

theorem hop_budget_witness:
  "''hopping'' \<noteq> ''simple''
   \<and> detectFreshWallet (exampleDetector 1) ''A'' ''Binance'' exampleInfo 10 ''hopping'' =
     ([AnalyzeCall ''A'', VerifyCall ''B''],
      Inr \<lparr>isFresh = False, finalWallet = None, path = [''A'', ''B''],
           resultReason = MaxHopsReachedInvalid 1 (TooManyTransactions 2),
           exchange = ''Binance'', hops = 1, amount = 2, signature = ''s1'',
           timestamp = None\<rparr>)
   \<and> maxHops (exampleDetector 1) = 1
   \<and> verifyCalls [AnalyzeCall ''A'', VerifyCall ''B''] = [last [''A'', ''B'']]
   \<and> \<not> 1 < maxHops (exampleDetector 1)
   \<and> verifyFinalWallet (solanaService (exampleDetector 1)) ''B'' =
       Inr \<lparr>isFinal = False, verifyReason = TooManyTransactions 2, txCount = 2,
            verifiedReceives = 0, verifiedWithdraws = Some 0\<rparr>
   \<and> (\<exists>r. hopLoop (exampleDetector 1) ''Binance'' exampleInfo 10 [''A'', ''B''] ''B'' 1
             [AnalyzeCall ''A''] = ([AnalyzeCall ''A'', VerifyCall ''B''], Inr r)
          \<and> \<not> isFresh r \<and> path r = [''A'', ''B''])
   \<and> \<not> 3 < maxHops historyFailsDetector
   \<and> verifyFinalWallet (solanaService historyFailsDetector) ''F'' =
       Inl (Error ''Error getting first transactions: 429'')
   \<and> hopLoop historyFailsDetector ''Binance'' exampleInfo 10 [''A'', ''B'', ''C'', ''F''] ''F'' 3 []
       = ([VerifyCall ''F''], Inl (Error ''Error getting first transactions: 429''))"
proof -
  have mode: "''hopping'' \<noteq> ''simple''" by simp
  have walk: "detectFreshWallet (exampleDetector 1) ''A'' ''Binance'' exampleInfo 10 ''hopping'' =
     ([AnalyzeCall ''A'', VerifyCall ''B''],
      Inr \<lparr>isFresh = False, finalWallet = None, path = [''A'', ''B''],
           resultReason = MaxHopsReachedInvalid 1 (TooManyTransactions 2),
           exchange = ''Binance'', hops = 1, amount = 2, signature = ''s1'',
           timestamp = None\<rparr>)"
    by (rule example_walk_A_budget_1)
  have budget: "maxHops (exampleDetector 1) = 1"
    by (simp add: exampleDetector_fields)
  have verify: "verifyFinalWallet (solanaService (exampleDetector 1)) ''B'' =
       Inr \<lparr>isFinal = False, verifyReason = TooManyTransactions 2, txCount = 2,
            verifiedReceives = 0, verifiedWithdraws = Some 0\<rparr>"
    by code_simp
  note inst = hop_budget[of "''hopping''" "exampleDetector 1" "''A''" "''Binance''" exampleInfo 10
      1 "[''A'', ''B'']" "''B''" "[AnalyzeCall ''A'']"]
  from inst mode walk budget
  have one: "verifyCalls [AnalyzeCall ''A'', VerifyCall ''B''] = [last [''A'', ''B'']]"
    by (metis FreshWalletResult.select_convs(3) FreshWalletResult.select_convs(6))
  from inst budget verify
  have stop: "\<exists>r. hopLoop (exampleDetector 1) ''Binance'' exampleInfo 10 [''A'', ''B''] ''B'' 1
             [AnalyzeCall ''A''] = ([AnalyzeCall ''A'', VerifyCall ''B''], Inr r)
          \<and> \<not> isFresh r \<and> path r = [''A'', ''B'']"
    by auto
  have spent: "\<not> 3 < maxHops historyFailsDetector"
    by code_simp
  have throws: "verifyFinalWallet (solanaService historyFailsDetector) ''F'' =
       Inl (Error ''Error getting first transactions: 429'')"
    by code_simp
  from hop_budget[of "''hopping''" historyFailsDetector "''A''" "''Binance''" exampleInfo 10
      3 "[''A'', ''B'', ''C'', ''F'']" "''F''" "[]"] spent throws
  have thrown: "hopLoop historyFailsDetector ''Binance'' exampleInfo 10
       [''A'', ''B'', ''C'', ''F''] ''F'' 3 []
       = ([VerifyCall ''F''], Inl (Error ''Error getting first transactions: 429''))"
    by auto
  from mode walk budget one verify stop spent throws thrown show ?thesis by simp
qed

section \<open>Strict mode\<close>

lemma verifyFinalWallet_isFinal:
  "verifyFinalWallet svc w = Inr v \<Longrightarrow>
   isFinal v \<longleftrightarrow>
     getTotalTransactionCount svc w = 0
     \<or> (getTotalTransactionCount svc w = 1
         \<and> (\<exists>tx rest. getFirstTransactions svc w 1 = Inr (tx # rest)
                \<and> getTransactionType w tx = RECEIVE))"
  by (auto simp: verifyFinalWallet_def Let_def split: if_splits sum.splits list.splits)

lemma verifyFinalWallet_throws:
  "verifyFinalWallet svc w = Inl e \<longleftrightarrow>
     getTotalTransactionCount svc w = 1 \<and> getFirstTransactions svc w 1 = Inl e"
  by (auto simp: verifyFinalWallet_def Let_def split: if_splits sum.splits list.splits)

lemma detectFreshWallet_simple:
  "detectFreshWallet d w en ti mx ''simple'' =
     ([VerifyCall w],
      case verifyFinalWallet (solanaService d) w of
        Inl e \<Rightarrow> Inl e
      | Inr v \<Rightarrow> Inr (newFreshWalletResult (isFinal v) (if isFinal v then Some w else None) [w]
            (if isFinal v then FreshSimple (verifyReason v) else NotFreshSimple (verifyReason v))
            en ti))"
  by (simp add: detectFreshWallet_def Let_def split: sum.splits)

text \<open>
  C1, as amended. In \<open>'simple'\<close> mode one verification is made. A result is fresh exactly
  when the total transaction count is 0, or is 1 and the first transaction fetched is
  classified RECEIVE; every result has \<open>hops = 0\<close> and the starting wallet as its path. The
  call throws exactly when the count is 1 and fetching that transaction throws.
\<close>

theorem simple_mode_fresh_iff:
  "(\<forall>calls r. detectFreshWallet d w en ti mx ''simple'' = (calls, Inr r) \<longrightarrow>
       calls = [VerifyCall w] \<and> hops r = 0 \<and> path r = [w]
       \<and> (isFresh r \<longleftrightarrow>
             getTotalTransactionCount (solanaService d) w = 0
             \<or> (getTotalTransactionCount (solanaService d) w = 1
                \<and> (\<exists>tx rest. getFirstTransactions (solanaService d) w 1 = Inr (tx # rest)
                      \<and> getTransactionType w tx = RECEIVE))))
   \<and> (\<forall>e. snd (detectFreshWallet d w en ti mx ''simple'') = Inl e \<longleftrightarrow>
         getTotalTransactionCount (solanaService d) w = 1
         \<and> getFirstTransactions (solanaService d) w 1 = Inl e)"
proof (rule conjI)
  show "\<forall>calls r. detectFreshWallet d w en ti mx ''simple'' = (calls, Inr r) \<longrightarrow>
       calls = [VerifyCall w] \<and> hops r = 0 \<and> path r = [w]
       \<and> (isFresh r \<longleftrightarrow>
             getTotalTransactionCount (solanaService d) w = 0
             \<or> (getTotalTransactionCount (solanaService d) w = 1
                \<and> (\<exists>tx rest. getFirstTransactions (solanaService d) w 1 = Inr (tx # rest)
                      \<and> getTransactionType w tx = RECEIVE)))"
  proof (intro allI impI)
    fix calls r
    assume h: "detectFreshWallet d w en ti mx ''simple'' = (calls, Inr r)"
    then obtain v where v: "verifyFinalWallet (solanaService d) w = Inr v"
      and r: "r = newFreshWalletResult (isFinal v) (if isFinal v then Some w else None) [w]
            (if isFinal v then FreshSimple (verifyReason v) else NotFreshSimple (verifyReason v))
            en ti"
      and c: "calls = [VerifyCall w]"
      by (cases "verifyFinalWallet (solanaService d) w") (simp_all add: detectFreshWallet_simple)
    from r have f: "isFresh r = isFinal v" "hops r = 0" "path r = [w]"
      by (simp_all add: newFreshWalletResult_def)
    from f c verifyFinalWallet_isFinal[OF v]
    show "calls = [VerifyCall w] \<and> hops r = 0 \<and> path r = [w]
       \<and> (isFresh r \<longleftrightarrow>
             getTotalTransactionCount (solanaService d) w = 0
             \<or> (getTotalTransactionCount (solanaService d) w = 1
                \<and> (\<exists>tx rest. getFirstTransactions (solanaService d) w 1 = Inr (tx # rest)
                      \<and> getTransactionType w tx = RECEIVE)))"
      by simp
  qed
next
  have "snd (detectFreshWallet d w en ti mx ''simple'') = Inl e
      \<longleftrightarrow> verifyFinalWallet (solanaService d) w = Inl e" for e
    by (cases "verifyFinalWallet (solanaService d) w") (simp_all add: detectFreshWallet_simple)
  then show "\<forall>e. snd (detectFreshWallet d w en ti mx ''simple'') = Inl e \<longleftrightarrow>
         getTotalTransactionCount (solanaService d) w = 1
         \<and> getFirstTransactions (solanaService d) w 1 = Inl e"
    by (simp add: verifyFinalWallet_throws)
qed

theorem simple_mode_fresh_iff_witness:
  "detectFreshWallet (exampleDetector 3) ''F'' ''Binance'' exampleInfo 10 ''simple'' =
     ([VerifyCall ''F''],
      Inr \<lparr>isFresh = True, finalWallet = Some ''F'', path = [''F''],
           resultReason = FreshSimple ExactlyOneReceive, exchange = ''Binance'', hops = 0,
           amount = 2, signature = ''s1'', timestamp = None\<rparr>)
   \<and> getTotalTransactionCount (solanaService (exampleDetector 3)) ''F'' = 1
   \<and> (\<exists>tx rest. getFirstTransactions (solanaService (exampleDetector 3)) ''F'' 1 = Inr (tx # rest)
          \<and> getTransactionType ''F'' tx = RECEIVE)"
proof -
  have walk: "detectFreshWallet (exampleDetector 3) ''F'' ''Binance'' exampleInfo 10 ''simple'' =
     ([VerifyCall ''F''],
      Inr \<lparr>isFresh = True, finalWallet = Some ''F'', path = [''F''],
           resultReason = FreshSimple ExactlyOneReceive, exchange = ''Binance'', hops = 0,
           amount = 2, signature = ''s1'', timestamp = None\<rparr>)"
    by code_simp
  have count: "getTotalTransactionCount (solanaService (exampleDetector 3)) ''F'' = 1"
    by code_simp
  from simple_mode_fresh_iff[of "exampleDetector 3" "''F''" "''Binance''" exampleInfo 10,
      THEN conjunct1, rule_format, OF walk] count
  have "\<exists>tx rest. getFirstTransactions (solanaService (exampleDetector 3)) ''F'' 1 = Inr (tx # rest)
          \<and> getTransactionType ''F'' tx = RECEIVE"
    by simp
  with walk count show ?thesis by blast
qed

text \<open>
  C1, as stated, fails on a wallet without transactions: the count is 0 and the result of
  \<open>'simple'\<close> mode is fresh.
\<close>

theorem simple_mode_zero_transactions_counterexample:
  "getTotalTransactionCount (solanaService (exampleDetector 3)) ''D'' = 0
   \<and> detectFreshWallet (exampleDetector 3) ''D'' ''Binance'' exampleInfo 10 ''simple'' =
     ([VerifyCall ''D''],
      Inr \<lparr>isFresh = True, finalWallet = Some ''D'', path = [''D''],
           resultReason = FreshSimple VirginWallet, exchange = ''Binance'', hops = 0,
           amount = 2, signature = ''s1'', timestamp = None\<rparr>)"
  by code_simp

text \<open>
  C10. When the signature request fails, \<open>getTotalTransactionCount\<close> returns 0,
  \<open>verifyFinalWallet\<close> reports a final wallet, and \<open>'simple'\<close> mode returns a fresh result
  for the wallet instead of throwing.
\<close>

theorem count_failure_reported_fresh:
  assumes "getSignaturesForAddress (solanaService d) w = Inl e"
  shows "getTotalTransactionCount (solanaService d) w = 0
     \<and> (\<exists>v. verifyFinalWallet (solanaService d) w = Inr v \<and> isFinal v)
     \<and> (\<exists>r. detectFreshWallet d w en ti mx ''simple'' = ([VerifyCall w], Inr r)
            \<and> isFresh r \<and> finalWallet r = Some w)"
proof -
  from assms have c: "getTotalTransactionCount (solanaService d) w = 0"
    by (simp add: getTotalTransactionCount_def)
  then have v: "verifyFinalWallet (solanaService d) w =
      Inr \<lparr>isFinal = True, verifyReason = VirginWallet, txCount = 0,
           verifiedReceives = 0, verifiedWithdraws = None\<rparr>"
    by (simp add: verifyFinalWallet_def)
  from c v show ?thesis
    by (simp add: detectFreshWallet_simple newFreshWalletResult_def)
qed

theorem count_failure_reported_fresh_witness:
  "getSignaturesForAddress (solanaService ((exampleDetector 3)\<lparr>solanaService := countFailsLedger\<rparr>)) ''A''
     = Inl (Error ''429 Too Many Requests'')
   \<and> getFirstTransactions countFailsLedger ''A'' 2 = Inr (exampleHistory ''A'')
   \<and> getTotalTransactionCount countFailsLedger ''A'' = 0
   \<and> (\<exists>r. detectFreshWallet ((exampleDetector 3)\<lparr>solanaService := countFailsLedger\<rparr>) ''A''
             ''Binance'' exampleInfo 10 ''simple'' = ([VerifyCall ''A''], Inr r)
          \<and> isFresh r \<and> finalWallet r = Some ''A'')"
proof -
  have fails: "getSignaturesForAddress
      (solanaService ((exampleDetector 3)\<lparr>solanaService := countFailsLedger\<rparr>)) ''A''
     = Inl (Error ''429 Too Many Requests'')"
    by code_simp
  have history: "getFirstTransactions countFailsLedger ''A'' 2 = Inr (exampleHistory ''A'')"
    by code_simp
  from count_failure_reported_fresh[OF fails, of "''Binance''" exampleInfo 10] fails history
  show ?thesis by simp
qed

section \<open>The adaptive analysis\<close>

lemma tryLimits_continue:
  assumes "analyzeFirstTransactions svc w k = Inr b" and "\<not> definitive b"
  shows "tryLimits svc w (k # rest) = tryLimits svc w rest"
  using assms by (cases "pattern b") (simp_all add: definitive_def)

lemma tryLimits_skip:
  "\<forall>k\<in>set pre. \<exists>b. analyzeFirstTransactions svc w k = Inr b \<and> \<not> definitive b \<Longrightarrow>
   tryLimits svc w (pre @ rest) = tryLimits svc w rest"
proof (induction pre)
  case Nil
  then show ?case by simp
next
  case (Cons k pre)
  then obtain b where b: "analyzeFirstTransactions svc w k = Inr b" "\<not> definitive b"
    by auto
  from tryLimits_continue[OF b, of "pre @ rest"]
  have "tryLimits svc w ((k # pre) @ rest) = tryLimits svc w (pre @ rest)"
    by (simp del: tryLimits.simps)
  with Cons show ?case by (simp del: tryLimits.simps)
qed

lemma tryLimits_return:
  assumes "analyzeFirstTransactions svc w l = Inr a" and "definitive a"
  shows "tryLimits svc w (l # post) = Inr (Some a)"
  using assms by (cases "pattern a") (auto simp add: definitive_def)

lemma tryLimits_throw:
  assumes "analyzeFirstTransactions svc w l = Inl e"
  shows "tryLimits svc w (l # post) = Inl e"
  using assms by simp

lemma analyzeFirstTransactions_signal:
  assumes "analyzeFirstTransactions svc w k = Inr b"
  shows "\<not> definitive b \<longleftrightarrow> pattern b = OTHER \<or> (pattern b = ONLY_RECEIVING \<and> 1 < receives b)"
proof (cases "getFirstTransactions svc w k")
  case (Inl e)
  with assms show ?thesis by (simp add: analyzeFirstTransactions_def)
next
  case (Inr txs)
  show ?thesis
  proof (cases "length txs = 0")
    case True
    with assms Inr show ?thesis
      by (auto simp: analyzeFirstTransactions_def definitive_def)
  next
    case False
    with assms Inr show ?thesis
      unfolding analyzeFirstTransactions_def Let_def definitive_def
      by (auto split: if_splits sum.splits prod.splits)
  qed
qed

text \<open>
  C9, as amended. For a bound \<open>maxN\<close> of at least 5, the windows tried are 2, 3, 5 and
  \<open>min 10 maxN\<close>, in non-decreasing order and none above \<open>maxN\<close>. The first window that
  gives a HOP, a VIRGIN or an ONLY_RECEIVING with one receive is returned at once; a window
  that gives OTHER or an ONLY_RECEIVING with more than one receive passes to the next one;
  an error thrown by a window is thrown on. When none of the four windows returns, the
  result is that of one more analysis, of size \<open>maxN\<close>, the largest window.
\<close>

theorem analyzeWithDynamicLimit_ladder:
  assumes "5 \<le> maxN"
  shows "limitsToTry maxN = [2, 3, 5, min 10 maxN]
   \<and> sorted (limitsToTry maxN @ [maxN])
   \<and> (\<forall>l\<in>set (limitsToTry maxN). l \<le> maxN)
   \<and> (\<forall>k b. analyzeFirstTransactions svc w k = Inr b \<longrightarrow>
         (\<not> definitive b \<longleftrightarrow>
            pattern b = OTHER \<or> (pattern b = ONLY_RECEIVING \<and> 1 < receives b)))
   \<and> (\<forall>pre l post a. limitsToTry maxN = pre @ l # post
         \<and> (\<forall>k\<in>set pre. \<exists>b. analyzeFirstTransactions svc w k = Inr b \<and> \<not> definitive b)
         \<and> analyzeFirstTransactions svc w l = Inr a \<and> definitive a \<longrightarrow>
         analyzeWithDynamicLimit svc w maxN = Inr a)
   \<and> (\<forall>pre l post e. limitsToTry maxN = pre @ l # post
         \<and> (\<forall>k\<in>set pre. \<exists>b. analyzeFirstTransactions svc w k = Inr b \<and> \<not> definitive b)
         \<and> analyzeFirstTransactions svc w l = Inl e \<longrightarrow>
         analyzeWithDynamicLimit svc w maxN = Inl e)
   \<and> ((\<forall>k\<in>set (limitsToTry maxN).
          \<exists>b. analyzeFirstTransactions svc w k = Inr b \<and> \<not> definitive b) \<longrightarrow>
        analyzeWithDynamicLimit svc w maxN = analyzeFirstTransactions svc w maxN)"
proof (intro conjI)
  show "limitsToTry maxN = [2, 3, 5, min 10 maxN]"
    by (simp add: limitsToTry_def)
  show "sorted (limitsToTry maxN @ [maxN])"
    using assms by (simp add: limitsToTry_def)
  show "\<forall>l\<in>set (limitsToTry maxN). l \<le> maxN"
    using assms by (simp add: limitsToTry_def)
  show "\<forall>k b. analyzeFirstTransactions svc w k = Inr b \<longrightarrow>
         (\<not> definitive b \<longleftrightarrow>
            pattern b = OTHER \<or> (pattern b = ONLY_RECEIVING \<and> 1 < receives b))"
    using analyzeFirstTransactions_signal by blast
  show "\<forall>pre l post a. limitsToTry maxN = pre @ l # post
         \<and> (\<forall>k\<in>set pre. \<exists>b. analyzeFirstTransactions svc w k = Inr b \<and> \<not> definitive b)
         \<and> analyzeFirstTransactions svc w l = Inr a \<and> definitive a \<longrightarrow>
         analyzeWithDynamicLimit svc w maxN = Inr a"
  proof (intro allI impI)
    fix pre l post a
    assume h: "limitsToTry maxN = pre @ l # post
         \<and> (\<forall>k\<in>set pre. \<exists>b. analyzeFirstTransactions svc w k = Inr b \<and> \<not> definitive b)
         \<and> analyzeFirstTransactions svc w l = Inr a \<and> definitive a"
    then have "tryLimits svc w (limitsToTry maxN) = tryLimits svc w (l # post)"
      by (simp add: tryLimits_skip del: tryLimits.simps)
    also from h have "\<dots> = Inr (Some a)"
      by (intro tryLimits_return) simp_all
    finally show "analyzeWithDynamicLimit svc w maxN = Inr a"
      by (simp add: analyzeWithDynamicLimit_def)
  qed
  show "\<forall>pre l post e. limitsToTry maxN = pre @ l # post
         \<and> (\<forall>k\<in>set pre. \<exists>b. analyzeFirstTransactions svc w k = Inr b \<and> \<not> definitive b)
         \<and> analyzeFirstTransactions svc w l = Inl e \<longrightarrow>
         analyzeWithDynamicLimit svc w maxN = Inl e"
  proof (intro allI impI)
    fix pre l post e
    assume h: "limitsToTry maxN = pre @ l # post
         \<and> (\<forall>k\<in>set pre. \<exists>b. analyzeFirstTransactions svc w k = Inr b \<and> \<not> definitive b)
         \<and> analyzeFirstTransactions svc w l = Inl e"
    then have "tryLimits svc w (limitsToTry maxN) = tryLimits svc w (l # post)"
      by (simp add: tryLimits_skip del: tryLimits.simps)
    also from h have "\<dots> = Inl e"
      by (intro tryLimits_throw) simp
    finally show "analyzeWithDynamicLimit svc w maxN = Inl e"
      by (simp add: analyzeWithDynamicLimit_def)
  qed
  show "(\<forall>k\<in>set (limitsToTry maxN).
          \<exists>b. analyzeFirstTransactions svc w k = Inr b \<and> \<not> definitive b) \<longrightarrow>
        analyzeWithDynamicLimit svc w maxN = analyzeFirstTransactions svc w maxN"
  proof (rule impI)
    assume "\<forall>k\<in>set (limitsToTry maxN).
          \<exists>b. analyzeFirstTransactions svc w k = Inr b \<and> \<not> definitive b"
    from tryLimits_skip[OF this, of "[]"]
    have "tryLimits svc w (limitsToTry maxN) = Inr None" by simp
    then show "analyzeWithDynamicLimit svc w maxN = analyzeFirstTransactions svc w maxN"
      by (simp add: analyzeWithDynamicLimit_def)
  qed
qed

theorem analyzeWithDynamicLimit_ladder_witness:
  "(5::nat) \<le> 10 \<and> sorted (limitsToTry 10 @ [10])
   \<and> limitsToTry 10 = [2, 3, 5] @ 10 # []
   \<and> analyzeFirstTransactions exampleLedger ''G'' 2 =
       Inr \<lparr>pattern = OTHER, receives = 1, withdraws = 1, nextWallet = None,
            reason = PartialWithdraw\<rparr>
   \<and> analyzeFirstTransactions exampleLedger ''G'' 3 =
       Inr \<lparr>pattern = OTHER, receives = 1, withdraws = 1, nextWallet = None,
            reason = PartialWithdraw\<rparr>
   \<and> analyzeFirstTransactions exampleLedger ''G'' 5 =
       Inr \<lparr>pattern = OTHER, receives = 1, withdraws = 1, nextWallet = None,
            reason = PartialWithdraw\<rparr>
   \<and> analyzeFirstTransactions exampleLedger ''G'' 10 =
       Inr \<lparr>pattern = OTHER, receives = 1, withdraws = 1, nextWallet = None,
            reason = PartialWithdraw\<rparr>
   \<and> \<not> definitive \<lparr>pattern = OTHER, receives = 1, withdraws = 1, nextWallet = None,
            reason = PartialWithdraw\<rparr>
   \<and> analyzeWithDynamicLimit exampleLedger ''G'' 10 = analyzeFirstTransactions exampleLedger ''G'' 10
   \<and> limitsToTry 10 = [] @ 2 # [3, 5, 10]
   \<and> analyzeFirstTransactions exampleLedger ''A'' 2 =
       Inr \<lparr>pattern = HOP, receives = 1, withdraws = 1, nextWallet = Some ''B'',
            reason = HopPattern 1\<rparr>
   \<and> definitive \<lparr>pattern = HOP, receives = 1, withdraws = 1, nextWallet = Some ''B'',
            reason = HopPattern 1\<rparr>
   \<and> analyzeWithDynamicLimit exampleLedger ''A'' 10 =
       Inr \<lparr>pattern = HOP, receives = 1, withdraws = 1, nextWallet = Some ''B'',
            reason = HopPattern 1\<rparr>
   \<and> analyzeFirstTransactions historyFailsLedger ''F'' 2 =
       Inl (Error ''Error getting first transactions: 429'')
   \<and> analyzeWithDynamicLimit historyFailsLedger ''F'' 10 =
       Inl (Error ''Error getting first transactions: 429'')"
proof -
  have five: "(5::nat) \<le> 10" by simp
  have f2: "analyzeFirstTransactions historyFailsLedger ''F'' 2 =
       Inl (Error ''Error getting first transactions: 429'')" by code_simp
  have g2: "analyzeFirstTransactions exampleLedger ''G'' 2 =
       Inr \<lparr>pattern = OTHER, receives = 1, withdraws = 1, nextWallet = None,
            reason = PartialWithdraw\<rparr>" by (simp add: example_window_G)
  have g3: "analyzeFirstTransactions exampleLedger ''G'' 3 =
       Inr \<lparr>pattern = OTHER, receives = 1, withdraws = 1, nextWallet = None,
            reason = PartialWithdraw\<rparr>" by (simp add: example_window_G)
  have g5: "analyzeFirstTransactions exampleLedger ''G'' 5 =
       Inr \<lparr>pattern = OTHER, receives = 1, withdraws = 1, nextWallet = None,
            reason = PartialWithdraw\<rparr>" by (simp add: example_window_G)
  have g10: "analyzeFirstTransactions exampleLedger ''G'' 10 =
       Inr \<lparr>pattern = OTHER, receives = 1, withdraws = 1, nextWallet = None,
            reason = PartialWithdraw\<rparr>" by (simp add: example_window_G)
  have nd: "\<not> definitive \<lparr>pattern = OTHER, receives = 1, withdraws = 1, nextWallet = None,
            reason = PartialWithdraw\<rparr>" by (simp add: definitive_def)
  have a2: "analyzeFirstTransactions exampleLedger ''A'' 2 =
       Inr \<lparr>pattern = HOP, receives = 1, withdraws = 1, nextWallet = Some ''B'',
            reason = HopPattern 1\<rparr>" by (rule example_window_A)
  have df: "definitive \<lparr>pattern = HOP, receives = 1, withdraws = 1, nextWallet = Some ''B'',
            reason = HopPattern 1\<rparr>" by (simp add: definitive_def)
  have l: "limitsToTry 10 = [2, 3, 5, 10]" by (simp add: limitsToTry_def)
  note g = analyzeWithDynamicLimit_ladder[OF five, of exampleLedger "''G''"]
  note a = analyzeWithDynamicLimit_ladder[OF five, of exampleLedger "''A''"]
  note f = analyzeWithDynamicLimit_ladder[OF five, of historyFailsLedger "''F''"]
  from g have s: "sorted (limitsToTry 10 @ [10])" by simp
  from g g2 g3 g5 g10 nd l
  have r1: "analyzeWithDynamicLimit exampleLedger ''G'' 10 = analyzeFirstTransactions exampleLedger ''G'' 10"
    by simp
  from a have "limitsToTry 10 = [] @ 2 # [3, 5, 10]
         \<and> (\<forall>k\<in>set []. \<exists>b. analyzeFirstTransactions exampleLedger ''A'' k = Inr b \<and> \<not> definitive b)
         \<and> analyzeFirstTransactions exampleLedger ''A'' 2 = Inr \<lparr>pattern = HOP, receives = 1, withdraws = 1, nextWallet = Some ''B'',
            reason = HopPattern 1\<rparr> \<and> definitive \<lparr>pattern = HOP, receives = 1, withdraws = 1, nextWallet = Some ''B'',
            reason = HopPattern 1\<rparr> \<longrightarrow>
         analyzeWithDynamicLimit exampleLedger ''A'' 10 = Inr \<lparr>pattern = HOP, receives = 1, withdraws = 1, nextWallet = Some ''B'',
            reason = HopPattern 1\<rparr>"
    by blast
  with a2 df l
  have r2: "analyzeWithDynamicLimit exampleLedger ''A'' 10 =
       Inr \<lparr>pattern = HOP, receives = 1, withdraws = 1, nextWallet = Some ''B'',
            reason = HopPattern 1\<rparr>"
    by simp
  from f have "limitsToTry 10 = [] @ 2 # [3, 5, 10]
         \<and> (\<forall>k\<in>set []. \<exists>b. analyzeFirstTransactions historyFailsLedger ''F'' k = Inr b
                \<and> \<not> definitive b)
         \<and> analyzeFirstTransactions historyFailsLedger ''F'' 2 =
             Inl (Error ''Error getting first transactions: 429'') \<longrightarrow>
         analyzeWithDynamicLimit historyFailsLedger ''F'' 10 =
             Inl (Error ''Error getting first transactions: 429'')"
    by blast
  with f2 l
  have r3: "analyzeWithDynamicLimit historyFailsLedger ''F'' 10 =
       Inl (Error ''Error getting first transactions: 429'')"
    by simp
  from five s l g2 g3 g5 g10 nd r1 a2 df r2 f2 r3 show ?thesis by simp
qed

text \<open>
  C9, as stated, fails for a bound below 5. With \<open>maxN = 1\<close> the windows tried are 2, 3, 5
  and then 1: on wallet \<open>G\<close> the windows of 2, 3 and 5 transactions give OTHER, and the
  result returned is the ONLY_RECEIVING of the window of one transaction.
\<close>

theorem ladder_below_five_counterexample:
  "limitsToTry 1 = [2, 3, 5, 1]
   \<and> analyzeFirstTransactions exampleLedger ''G'' 2 =
       Inr \<lparr>pattern = OTHER, receives = 1, withdraws = 1, nextWallet = None,
            reason = PartialWithdraw\<rparr>
   \<and> analyzeFirstTransactions exampleLedger ''G'' 5 =
       Inr \<lparr>pattern = OTHER, receives = 1, withdraws = 1, nextWallet = None,
            reason = PartialWithdraw\<rparr>
   \<and> analyzeWithDynamicLimit exampleLedger ''G'' 1 =
       Inr \<lparr>pattern = ONLY_RECEIVING, receives = 1, withdraws = 0, nextWallet = None,
            reason = OneReceiveNoWithdraws\<rparr>"
  by (simp add: analyzeWithDynamicLimit_def limitsToTry_def example_window_G)

section \<open>The scan\<close>


lemma analyzeWallets_throw:
  "cache st (toWallet tx) = None \<Longrightarrow>
   snd (detectFreshWallet d (toWallet tx) en
          \<lparr>infoAmount = amountSOL tx, infoSignature = txSignature tx,
           infoTimestamp = txTimestamp tx\<rparr> 10 mode) = Inl e \<Longrightarrow>
   analyzeWallets d en mode (tx # txs) st = (st\<lparr>walked := walked st @ [toWallet tx]\<rparr>, Some e)"
  by simp


lemma analyzeWallets_append:
  "analyzeWallets d en mode (pre @ rest) st =
     (case analyzeWallets d en mode pre st of
        (st1, None) \<Rightarrow> analyzeWallets d en mode rest st1
      | (st1, Some e) \<Rightarrow> (st1, Some e))"
  by (induction pre arbitrary: st) (auto split: option.splits sum.splits)






lemma scanExchangeWallets_unfold:
  assumes "collectOutgoing d flt (exchangeWallets d) [] = Inr allTxs"
    and "analyzeWallets d en mode (uniqueWallets allTxs [])
           \<lparr>cache = processedWalletsCache d, results = [], walked = []\<rparr> = (st, thrown)"
  shows "scanExchangeWallets d en flt mode =
     (d\<lparr>processedWalletsCache := cache st\<rparr>, walked st,
      (case thrown of None \<Rightarrow> Inr (results st) | Some e \<Rightarrow> Inl e))"
  using assms by (simp add: scanExchangeWallets_def)

text \<open>
  C2, as amended. When \<open>detectFreshWallet\<close> throws for a destination that is not in the
  cache, after the destinations before it were gone through without an error, the scan
  throws the same error and returns no list. The cache of the detector is the one reached
  before that destination, in which the destination has no entry; the last destination
  walked is the failing one, so those after it are not analysed.
\<close>

theorem failing_destination_aborts_scan:
  assumes "collectOutgoing d flt (exchangeWallets d) [] = Inr allTxs"
    and "uniqueWallets allTxs [] = pre @ tx # post"
    and "analyzeWallets d en mode pre
           \<lparr>cache = processedWalletsCache d, results = [], walked = []\<rparr> = (st1, None)"
    and "cache st1 (toWallet tx) = None"
    and "snd (detectFreshWallet d (toWallet tx) en
          \<lparr>infoAmount = amountSOL tx, infoSignature = txSignature tx,
           infoTimestamp = txTimestamp tx\<rparr> 10 mode) = Inl e"
  shows "scanExchangeWallets d en flt mode =
     (d\<lparr>processedWalletsCache := cache st1\<rparr>, walked st1 @ [toWallet tx], Inl e)
     \<and> processedWalletsCache (fst (scanExchangeWallets d en flt mode)) (toWallet tx) = None"
proof -
  from analyzeWallets_throw[OF assms(4,5), of post]
  have "analyzeWallets d en mode (tx # post) st1 = (st1\<lparr>walked := walked st1 @ [toWallet tx]\<rparr>, Some e)" .
  with assms(2,3)
  have "analyzeWallets d en mode (uniqueWallets allTxs [])
           \<lparr>cache = processedWalletsCache d, results = [], walked = []\<rparr>
        = (st1\<lparr>walked := walked st1 @ [toWallet tx]\<rparr>, Some e)"
    by (simp add: analyzeWallets_append del: analyzeWallets.simps)
  from scanExchangeWallets_unfold[OF assms(1) this] assms(4) show ?thesis by simp
qed

theorem failing_destination_aborts_scan_witness:
  "collectOutgoing historyFailsDetector exampleFilter (exchangeWallets historyFailsDetector) [] =
     Inr [mkTransfer ''s1'' ''E'' ''F'' 2000000000, mkTransfer ''s2'' ''E'' ''D'' 2000000000]
   \<and> uniqueWallets [mkTransfer ''s1'' ''E'' ''F'' 2000000000, mkTransfer ''s2'' ''E'' ''D'' 2000000000] []
       = [] @ mkTransfer ''s1'' ''E'' ''F'' 2000000000 # [mkTransfer ''s2'' ''E'' ''D'' 2000000000]
   \<and> snd (detectFreshWallet historyFailsDetector ''F'' ''Binance''
          \<lparr>infoAmount = 2, infoSignature = ''s1'', infoTimestamp = None\<rparr> 10 ''hopping'')
       = Inl (Error ''Error getting first transactions: 429'')
   \<and> fst (snd (scanExchangeWallets historyFailsDetector ''Binance'' exampleFilter ''hopping'')) = [''F'']
   \<and> snd (snd (scanExchangeWallets historyFailsDetector ''Binance'' exampleFilter ''hopping''))
       = Inl (Error ''Error getting first transactions: 429'')
   \<and> processedWalletsCache
        (fst (scanExchangeWallets historyFailsDetector ''Binance'' exampleFilter ''hopping'')) ''F'' = None"
proof -
  let ?tf = "mkTransfer ''s1'' ''E'' ''F'' 2000000000"
  let ?td = "mkTransfer ''s2'' ''E'' ''D'' 2000000000"
  let ?st = "\<lparr>cache = processedWalletsCache historyFailsDetector, results = [], walked = []\<rparr>"
  have collect: "collectOutgoing historyFailsDetector exampleFilter
      (exchangeWallets historyFailsDetector) [] = Inr [?tf, ?td]"
    by (simp add: historyFailsDetector_def newFreshWalletDetector_def historyFailsLedger_def
        exampleLedger_def snapshotLedger_def exampleOutgoing_def exampleFilter_def mkTransfer_def
        exampleConfig_def orDefault_def)
  have unique: "uniqueWallets [?tf, ?td] [] = [] @ ?tf # [?td]"
    by (simp add: mkTransfer_def)
  have pre: "analyzeWallets historyFailsDetector ''Binance'' ''hopping'' [] ?st = (?st, None)"
    by simp
  have miss: "cache ?st (toWallet ?tf) = None"
    by (simp add: historyFailsDetector_def newFreshWalletDetector_def)
  have throws: "snd (detectFreshWallet historyFailsDetector ''F'' ''Binance''
          \<lparr>infoAmount = 2, infoSignature = ''s1'', infoTimestamp = None\<rparr> 10 ''hopping'')
       = Inl (Error ''Error getting first transactions: 429'')"
    by code_simp
  then have throws': "snd (detectFreshWallet historyFailsDetector (toWallet ?tf) ''Binance''
          \<lparr>infoAmount = amountSOL ?tf, infoSignature = txSignature ?tf,
           infoTimestamp = txTimestamp ?tf\<rparr> 10 ''hopping'')
       = Inl (Error ''Error getting first transactions: 429'')"
    by (simp add: mkTransfer_def)
  have empty: "processedWalletsCache historyFailsDetector ''F'' = None"
    by (simp add: historyFailsDetector_def newFreshWalletDetector_def)
  from failing_destination_aborts_scan[OF collect unique pre miss throws'] empty
  have "fst (snd (scanExchangeWallets historyFailsDetector ''Binance'' exampleFilter ''hopping'')) = [''F'']
     \<and> snd (snd (scanExchangeWallets historyFailsDetector ''Binance'' exampleFilter ''hopping''))
       = Inl (Error ''Error getting first transactions: 429'')
     \<and> processedWalletsCache
        (fst (scanExchangeWallets historyFailsDetector ''Binance'' exampleFilter ''hopping'')) ''F'' = None"
    by (simp add: mkTransfer_def)
  with collect unique throws show ?thesis by simp
qed

text \<open>
  C2, as stated, fails: on the ledger where the history of \<open>F\<close> cannot be fetched, the
  scan over the destinations \<open>F\<close> and \<open>D\<close> throws instead of returning the result for
  \<open>D\<close>, which on its own is found fresh, and \<open>D\<close> is never walked.
\<close>

theorem scan_aborts_counterexample:
  "snd (snd (scanExchangeWallets historyFailsDetector ''Binance'' exampleFilter ''simple''))
     = Inl (Error ''Error getting first transactions: 429'')
   \<and> fst (snd (scanExchangeWallets historyFailsDetector ''Binance'' exampleFilter ''simple'')) = [''F'']
   \<and> snd (detectFreshWallet historyFailsDetector ''D'' ''Binance''
          \<lparr>infoAmount = 2, infoSignature = ''s2'', infoTimestamp = None\<rparr> 10 ''simple'')
       = Inr \<lparr>isFresh = True, finalWallet = Some ''D'', path = [''D''],
           resultReason = FreshSimple VirginWallet, exchange = ''Binance'', hops = 0,
           amount = 2, signature = ''s2'', timestamp = None\<rparr>"
  by (simp add: scanExchangeWallets_def historyFailsDetector_def newFreshWalletDetector_def
      historyFailsLedger_def exampleLedger_def snapshotLedger_def exampleOutgoing_def
      exampleHistory_def exampleFilter_def mkTransfer_def exampleConfig_def orDefault_def
      detectFreshWallet_def verifyFinalWallet_def getTotalTransactionCount_def
      newFreshWalletResult_def transferTx_def Let_def)





end
